theory Spec2Isabelle
  imports Complex_Main
begin

section \<open>Errors and floating-point values\<close>

text \<open>
  Every exception the modelled code can raise is a value of \<open>py_error\<close>; a function that
  can raise returns \<open>py_error + 'a\<close>, with \<open>Inl\<close> for the exception.
  Python floats are idealised as reals: rounding and overflow are not modelled.
\<close>

datatype py_error =
    ZeroDivisionError
  | UnboundLocalError string
  | RuntimeError string
  | ValueError string
  | IndexError string

text \<open>
  The one non-finite float the model keeps is NaN, which the engine's mean reduction
  produces from \<open>0 / 0\<close> (tensor division does not raise).
\<close>

datatype pyfloat = Fin real | NaN

section \<open>Tensors\<close>

text \<open>
  A tensor is its shape together with its elements by index; elements outside the shape
  are never read. Token batches are \<open>nat tensor2\<close> of shape (batch, seq_len), logits
  are \<open>real tensor3\<close> of shape (batch, seq_len, vocabulary).
\<close>

record 'a tensor2 =
  rows :: nat
  cols :: nat
  at2 :: "nat \<Rightarrow> nat \<Rightarrow> 'a"

record 'a tensor3 =
  dim0 :: nat
  dim1 :: nat
  dim2 :: nat
  at3 :: "nat \<Rightarrow> nat \<Rightarrow> nat \<Rightarrow> 'a"

definition ones :: "nat \<Rightarrow> nat \<Rightarrow> nat \<Rightarrow> real tensor3" where
  "ones a b c = \<lparr>dim0 = a, dim1 = b, dim2 = c, at3 = (\<lambda>k i j. 1)\<rparr>"

definition zeros :: "nat \<Rightarrow> nat \<Rightarrow> real tensor2" where
  "zeros a b = \<lparr>rows = a, cols = b, at2 = (\<lambda>i j. 0)\<rparr>"

text \<open>\<open>tril\<close> keeps the lower triangle (column \<open>j \<le> i\<close>) of every matrix of the batch.\<close>

definition tril :: "real tensor3 \<Rightarrow> real tensor3" where
  "tril t = t\<lparr>at3 := (\<lambda>k i j. if j \<le> i then at3 t k i j else 0)\<rparr>"

definition eq_scalar3 :: "'a tensor3 \<Rightarrow> 'a \<Rightarrow> bool tensor3" where
  "eq_scalar3 t v =
     \<lparr>dim0 = dim0 t, dim1 = dim1 t, dim2 = dim2 t, at3 = (\<lambda>k i j. at3 t k i j = v)\<rparr>"

definition eq_scalar2 :: "'a tensor2 \<Rightarrow> 'a \<Rightarrow> bool tensor2" where
  "eq_scalar2 t v = \<lparr>rows = rows t, cols = cols t, at2 = (\<lambda>i j. at2 t i j = v)\<rparr>"

text \<open>\<open>t.permute(0, 2, 1)\<close> swaps the last two axes.\<close>

definition permute_0_2_1 :: "'a tensor3 \<Rightarrow> 'a tensor3" where
  "permute_0_2_1 t =
     \<lparr>dim0 = dim0 t, dim1 = dim2 t, dim2 = dim1 t, at3 = (\<lambda>n c d. at3 t n d c)\<rparr>"

section \<open>Masking strategy\<close>

text \<open>
  \<^verbatim>\<open>
  def _make_mask(self, x):
      causal_mask = ones(x.size(0) * self._n_heads, x.size(1), x.size(1))
      causal_mask = (tril(causal_mask) == 0)
      padding_mask = (x == PAD_TOKEN_IDX)
      return causal_mask.to(x.device), padding_mask.to(x.device)
  \<close>
  \<open>PAD_TOKEN_IDX\<close> is imported from the data module and is a parameter here. Device
  placement does not change values.
\<close>

definition make_mask :: "nat \<Rightarrow> nat \<Rightarrow> nat tensor2 \<Rightarrow> bool tensor3 \<times> bool tensor2" where
  "make_mask PAD_TOKEN_IDX n_heads x =
     (let causal_mask = ones (rows x * n_heads) (cols x) (cols x);
          causal_mask = eq_scalar3 (tril causal_mask) 0;
          padding_mask = eq_scalar2 x PAD_TOKEN_IDX
      in (causal_mask, padding_mask))"

text \<open>
  The attention block reads a boolean mask as "True = this key is not allowed": query
  position \<open>i\<close> of slice \<open>k\<close> may attend to key position \<open>j\<close> when the entry is
  False.
\<close>

definition may_attend :: "bool tensor3 \<Rightarrow> nat \<Rightarrow> nat \<Rightarrow> nat \<Rightarrow> bool" where
  "may_attend msk k i j = (\<not> at3 msk k i j)"

section \<open>Sequence model\<close>

text \<open>
  \<^verbatim>\<open>
  def forward(self, x):
      x_causal_mask, x_padding_mask = self._make_mask(x)
      out = self._embedding(x) * sqrt(tensor(self._size_embed))
      out = self._position_encoder(out)
      out = self._decoder(out, out,
                          tgt_mask=x_causal_mask, tgt_key_padding_mask=x_padding_mask,
                          memory_mask=x_causal_mask, memory_key_padding_mask=x_padding_mask)
      out = self._linear(out)
      return out
  \<close>
  The layers are the engine's and are parameters here (for a fixed mode and fixed dropout
  masks); the decoder layer takes the target, the memory and the four masks in the order
  of the call.
\<close>

record layers =
  embedding_layer :: "nat tensor2 \<Rightarrow> real tensor3"
  position_encoder_layer :: "real tensor3 \<Rightarrow> real tensor3"
  decoder_layer :: "real tensor3 \<Rightarrow> real tensor3 \<Rightarrow> bool tensor3 \<Rightarrow> bool tensor2
                      \<Rightarrow> bool tensor3 \<Rightarrow> bool tensor2 \<Rightarrow> real tensor3"
  linear_layer :: "real tensor3 \<Rightarrow> real tensor3"

definition scale3 :: "real \<Rightarrow> real tensor3 \<Rightarrow> real tensor3" where
  "scale3 a t = t\<lparr>at3 := (\<lambda>k i j. at3 t k i j * a)\<rparr>"

definition forward :: "layers \<Rightarrow> nat \<Rightarrow> nat \<Rightarrow> nat \<Rightarrow> nat tensor2 \<Rightarrow> real tensor3" where
  "forward Ls PAD_TOKEN_IDX n_heads size_embed x =
     (case make_mask PAD_TOKEN_IDX n_heads x of
        (x_causal_mask, x_padding_mask) \<Rightarrow>
          (let out = scale3 (sqrt (real size_embed)) (embedding_layer Ls x);
               out = position_encoder_layer Ls out;
               out = decoder_layer Ls out out x_causal_mask x_padding_mask
                       x_causal_mask x_padding_mask;
               out = linear_layer Ls out
           in out))"

section \<open>Learning-rate schedule\<close>

text \<open>
  \<^verbatim>\<open>
  def warmup_schedule(step: int, warmup_steps: int, max_steps: int):
      lr_factor = 0.5 * (1 + math.cos(math.pi * step / max_steps))
      if step <= warmup_steps:
          lr_factor *= step / warmup_steps
      return lr_factor
  \<close>
  Both divisions are Python true divisions: a zero divisor raises \<open>ZeroDivisionError\<close>.
\<close>

definition warmup_schedule :: "int \<Rightarrow> int \<Rightarrow> int \<Rightarrow> py_error + real" where
  "warmup_schedule step warmup_steps max_steps =
     (if max_steps = 0 then Inl ZeroDivisionError
      else
        let lr_factor = 0.5 * (1 + cos (pi * real_of_int step / real_of_int max_steps))
        in if step \<le> warmup_steps
           then (if warmup_steps = 0 then Inl ZeroDivisionError
                 else Inr (lr_factor * (real_of_int step / real_of_int warmup_steps)))
           else Inr lr_factor)"

text \<open>Two results of the schedule are ordered when both are factors and the first is not larger.\<close>

definition factor_le :: "py_error + real \<Rightarrow> py_error + real \<Rightarrow> bool" where
  "factor_le r1 r2 =
     (case r1 of Inl _ \<Rightarrow> False
      | Inr a \<Rightarrow> (case r2 of Inl _ \<Rightarrow> False | Inr b \<Rightarrow> a \<le> b))"


section \<open>Positional encoder\<close>

text \<open>
  \<open>arange(start, stop, step)\<close> for a positive step: the values
  \<open>start, start + step, \<dots>\<close> below \<open>stop\<close>.
\<close>

definition arange :: "nat \<Rightarrow> nat \<Rightarrow> nat \<Rightarrow> real list" where
  "arange start stop stp =
     map (\<lambda>i. real (start + i * stp)) [0..<(stop - start + stp - 1) div stp]"

text \<open>
  The product of a column vector (\<open>position.unsqueeze(1)\<close>, shape (n, 1)) and a vector
  of shape (m), broadcast to shape (n, m).
\<close>

definition mul_broadcast :: "real list \<Rightarrow> real list \<Rightarrow> real tensor2" where
  "mul_broadcast col vec =
     \<lparr>rows = length col, cols = length vec, at2 = (\<lambda>p i. col ! p * vec ! i)\<rparr>"

definition map_tensor2 :: "('a \<Rightarrow> 'b) \<Rightarrow> 'a tensor2 \<Rightarrow> 'b tensor2" where
  "map_tensor2 f t = \<lparr>rows = rows t, cols = cols t, at2 = (\<lambda>p i. f (at2 t p i))\<rparr>"

text \<open>
  The slice assignment \<open>t[:, start::2] = src\<close>. The slice has the columns
  \<open>start, start + 2, \<dots>\<close> of \<open>t\<close>; \<open>src\<close> must have the shape of the slice, a
  dimension of size 1 being broadcast, and the engine raises otherwise.
\<close>

definition set_cols_step2 :: "nat \<Rightarrow> real tensor2 \<Rightarrow> real tensor2 \<Rightarrow> py_error + real tensor2" where
  "set_cols_step2 start t src =
     (let n = (cols t - start + 1) div 2
      in if (rows src = rows t \<or> rows src = 1) \<and> (cols src = n \<or> cols src = 1)
         then Inr (t\<lparr>at2 := (\<lambda>p c.
                if start \<le> c \<and> even (c - start)
                then at2 src (if rows src = rows t then p else 0)
                             (if cols src = n then (c - start) div 2 else 0)
                else at2 t p c)\<rparr>)
         else Inl (RuntimeError ''shape mismatch''))"

text \<open>
  \<^verbatim>\<open>
  class PositionalEncoding(Module):
      def __init__(self, size_embed, dropout=0.1, max_seq_len=1000):
          super().__init__()
          self._dropout = Dropout(p=dropout)
          position = arange(max_seq_len).unsqueeze(1)
          div_term = exp(arange(0, size_embed, 2) * (-log(tensor(10000.0)) / size_embed))
          pos_encoding = zeros(max_seq_len, size_embed)
          pos_encoding[:, 0::2] = sin(position * div_term)
          pos_encoding[:, 1::2] = cos(position * div_term)
          self.register_buffer('_pos_encoding', pos_encoding)  # don't train these
  \<close>
  A module keeps its trainable tensors in its parameters and its fixed tensors in its
  buffers, both by name; the optimiser is given the parameters only. The dropout layer has
  no tensors and rejects a probability outside \<open>[0, 1]\<close>.
\<close>

record positional_encoding =
  dropout_p :: real
  pe_parameters :: "(string \<times> real tensor2) list"
  pe_buffers :: "(string \<times> real tensor2) list"

definition PositionalEncoding_init :: "nat \<Rightarrow> real \<Rightarrow> nat \<Rightarrow> py_error + positional_encoding" where
  "PositionalEncoding_init size_embed dropout max_seq_len =
     (if dropout < 0 \<or> 1 < dropout then Inl (ValueError ''dropout probability'')
      else
        let position = arange 0 max_seq_len 1;
            div_term = map (\<lambda>v. exp (v * (- ln 10000 / real size_embed)))
                           (arange 0 size_embed 2);
            pos_encoding = zeros max_seq_len size_embed
        in case set_cols_step2 0 pos_encoding (map_tensor2 sin (mul_broadcast position div_term)) of
             Inl e \<Rightarrow> Inl e
           | Inr pos_encoding \<Rightarrow>
               (case set_cols_step2 1 pos_encoding
                       (map_tensor2 cos (mul_broadcast position div_term)) of
                  Inl e \<Rightarrow> Inl e
                | Inr pos_encoding \<Rightarrow>
                    Inr \<lparr>dropout_p = dropout, pe_parameters = [],
                         pe_buffers = [(''_pos_encoding'', pos_encoding)]\<rparr>))"

text \<open>The common argument \<open>position * div_term\<close> of the two slice assignments.\<close>

definition angles :: "nat \<Rightarrow> nat \<Rightarrow> real tensor2" where
  "angles E L = mul_broadcast (arange 0 L 1)
      (map (\<lambda>v. exp (v * (- ln 10000 / real E))) (arange 0 E 2))"

section \<open>Sampling distribution\<close>

text \<open>
  \<open>Categorical(logits=l)\<close> is the distribution over indices whose probabilities are the
  softmax of the logits.
\<close>

definition Categorical_probs :: "real list \<Rightarrow> real list" where
  "Categorical_probs logits = map (\<lambda>l. exp l / (\<Sum>l'\<leftarrow>logits. exp l')) logits"

text \<open>
  The distribution \<open>generate\<close> samples from:
  \<^verbatim>\<open>Categorical(logits=temperature * token_logits[0, -1])\<close>.
\<close>

definition sampling_distribution :: "real \<Rightarrow> real list \<Rightarrow> real list" where
  "sampling_distribution temperature logits =
     Categorical_probs (map (\<lambda>l. temperature * l) logits)"

section \<open>Loss\<close>

text \<open>
  \<open>CrossEntropyLoss(ignore_index=PAD_TOKEN_IDX)\<close>, applied to an input of shape
  (N, C, D) (class scores along the middle axis) and a target of shape (N, D), with the
  default mean reduction: the negative log-softmax of the target class, summed over the
  positions whose target is not the ignored index, divided by the number of those
  positions. The division is a tensor division: with no counted position it is
  \<open>0 / 0\<close>, which is NaN. A counted target outside the classes raises.
\<close>

definition class_scores :: "real tensor3 \<Rightarrow> nat \<Rightarrow> nat \<Rightarrow> real list" where
  "class_scores inp n d = map (\<lambda>c. at3 inp n c d) [0..<dim1 inp]"

definition nll :: "real list \<Rightarrow> nat \<Rightarrow> real" where
  "nll scores c = - (scores ! c - ln (\<Sum>x\<leftarrow>scores. exp x))"

definition positions :: "nat tensor2 \<Rightarrow> (nat \<times> nat) list" where
  "positions tgt = List.product [0..<rows tgt] [0..<cols tgt]"

definition CrossEntropyLoss :: "nat \<Rightarrow> real tensor3 \<Rightarrow> nat tensor2 \<Rightarrow> py_error + pyfloat" where
  "CrossEntropyLoss ignore_index inp tgt =
     (if dim0 inp \<noteq> rows tgt \<or> dim2 inp \<noteq> cols tgt
      then Inl (ValueError ''input and target shapes'')
      else if \<exists>(n, d) \<in> set (positions tgt).
                at2 tgt n d \<noteq> ignore_index \<and> dim1 inp \<le> at2 tgt n d
      then Inl (IndexError ''target out of bounds'')
      else
        let total = (\<Sum>(n, d)\<leftarrow>positions tgt.
                       if at2 tgt n d = ignore_index then 0
                       else nll (class_scores inp n d) (at2 tgt n d));
            counted = (\<Sum>(n, d)\<leftarrow>positions tgt.
                       if at2 tgt n d = ignore_index then 0 else (1::nat))
        in if counted = 0 then Inr NaN else Inr (Fin (total / real counted)))"

text \<open>
  The loss of one batch, as \<open>_train_step\<close> and \<open>_val_step\<close> both compute it from the
  model output of shape (batch, seq_len, vocabulary):
  \<^verbatim>\<open>loss_batch = loss_fn(y_pred.permute(0, 2, 1), y_batch)\<close>
  with \<open>loss_fn = CrossEntropyLoss(ignore_index=PAD_TOKEN_IDX)\<close>.
\<close>

definition loss_batch ::
    "(real tensor3 \<Rightarrow> nat tensor2 \<Rightarrow> py_error + pyfloat) \<Rightarrow> real tensor3 \<Rightarrow> nat tensor2
       \<Rightarrow> py_error + pyfloat" where
  "loss_batch loss_fn y_pred y_batch = loss_fn (permute_0_2_1 y_pred) y_batch"

section \<open>Model state and numeric engine\<close>

text \<open>
  Tensors live in a store, addressed by reference. A model is the list of its named
  tensors, each a reference into the store: \<open>model.state_dict()\<close> returns the same
  references under the same names, and the optimiser writes through them. The world is
  what the functions below read and change besides their arguments: the store, the
  model's training flag and the engine's global random generator.
\<close>

type_synonym ref = nat

type_synonym module = "(string \<times> ref) list"

record ('t, 'g) world =
  tensors :: "ref \<Rightarrow> 't"
  training :: bool
  rng :: 'g

text \<open>
  The numeric engine is a parameter. Its forward pass reads the current values of the
  model's tensors; in evaluation mode dropout is the identity and the pass draws no random
  number, in training mode it draws from the global generator. \<open>backward_step\<close> is
  one update: gradients of the batch loss (for the dropout masks drawn from the given
  generator state), optional clipping of their norm, and the optimiser step at the given
  learning rate; it yields the new values of the model's tensors. \<open>sample\<close> draws an
  index from a probability vector.
\<close>

record ('t, 'g, 'o) engine =
  manual_seed :: "int \<Rightarrow> 'g"
  forward_eval :: "(string \<times> 't) list \<Rightarrow> nat tensor2 \<Rightarrow> py_error + real tensor3"
  forward_train :: "(string \<times> 't) list \<Rightarrow> 'g \<Rightarrow> nat tensor2 \<Rightarrow> (py_error + real tensor3) \<times> 'g"
  Adam :: "(string \<times> 't) list \<Rightarrow> real \<Rightarrow> 'o"
  backward_step :: "'o \<Rightarrow> real \<Rightarrow> real option \<Rightarrow> (string \<times> 't) list \<Rightarrow> 'g
                     \<Rightarrow> nat tensor2 \<Rightarrow> nat tensor2 \<Rightarrow> (string \<times> 't) list \<times> 'o"
  sample :: "real list \<Rightarrow> 'g \<Rightarrow> nat \<times> 'g"

definition read_parameters :: "module \<Rightarrow> ('t, 'g, 'x) world_scheme \<Rightarrow> (string \<times> 't) list" where
  "read_parameters model w = map (\<lambda>(name, r). (name, tensors w r)) model"

text \<open>Writing values into the model's tensors, in place, by name.\<close>

definition write_parameters ::
    "module \<Rightarrow> (string \<times> 't) list \<Rightarrow> ('t, 'g, 'x) world_scheme \<Rightarrow> ('t, 'g, 'x) world_scheme" where
  "write_parameters model values w =
     w\<lparr>tensors := fold (\<lambda>(name, v) h. case map_of model name of
                                          Some r \<Rightarrow> h(r := v)
                                        | None \<Rightarrow> h)
                       values (tensors w)\<rparr>"

text \<open>\<open>model(x)\<close>: the forward pass in the model's current mode.\<close>

definition call_model ::
    "('t, 'g, 'o) engine \<Rightarrow> module \<Rightarrow> nat tensor2 \<Rightarrow> ('t, 'g, 'x) world_scheme
       \<Rightarrow> (py_error + real tensor3) \<times> ('t, 'g, 'x) world_scheme" where
  "call_model E model x w =
     (if training w
      then (case forward_train E (read_parameters model w) (rng w) x of
              (r, g) \<Rightarrow> (r, w\<lparr>rng := g\<rparr>))
      else (forward_eval E (read_parameters model w) x, w))"

section \<open>Generator\<close>

text \<open>Python string operations used to format the output (ASCII letters only).\<close>

definition upper :: "string \<Rightarrow> string" where
  "upper s = map (\<lambda>c. if (97::nat) \<le> of_char c \<and> of_char c \<le> (122::nat)
                       then char_of (of_char c - (32::nat)) else c) s"

fun join :: "string \<Rightarrow> string list \<Rightarrow> string" where
  "join sep [] = []"
| "join sep [x] = x"
| "join sep (x # y # ys) = x @ sep @ join sep (y # ys)"

function replace :: "string \<Rightarrow> string \<Rightarrow> string \<Rightarrow> string" where
  "replace old new s =
     (if old = [] then new @ concat (map (\<lambda>c. c # new) s)
      else if s = [] then []
      else if take (length old) s = old then new @ replace old new (drop (length old) s)
      else hd s # replace old new (tl s))"
  by pat_completeness auto
termination
  by (relation "measure (\<lambda>(old, new, s). length s)") auto

text \<open>
  The tokenizer (data module), \<open>capitalise_sentences\<close> (utils module) and
  \<open>EOS_DELIM\<close> (data module) are imported by the source and are parameters here.
\<close>

record tokenizer =
  encode :: "string \<Rightarrow> nat list"
  tokens2text :: "nat list \<Rightarrow> string list"

record text_utils =
  capitalise_sentences :: "string \<Rightarrow> string \<Rightarrow> string"
  EOS_DELIM :: string

text \<open>\<open>tensor([token_sequence])\<close>: a batch of one sequence.\<close>

definition tensor_of_sequence :: "nat list \<Rightarrow> nat tensor2" where
  "tensor_of_sequence token_sequence =
     \<lparr>rows = 1, cols = length token_sequence, at2 = (\<lambda>i j. token_sequence ! j)\<rparr>"

text \<open>\<open>token_logits[0, -1]\<close>: the logits at the final position of the first sequence.\<close>

definition last_logits :: "real tensor3 \<Rightarrow> py_error + real list" where
  "last_logits token_logits =
     (if dim0 token_logits = 0 \<or> dim1 token_logits = 0 then Inl (IndexError ''index out of range'')
      else Inr (map (\<lambda>v. at3 token_logits 0 (dim1 token_logits - 1) v) [0..<dim2 token_logits]))"

text \<open>
  \<^verbatim>\<open>
  for _ in range(output_length):
      x = tensor([token_sequence], device=device_)
      token_logits = model(x)
      token_pred = Categorical(logits=temperature * token_logits[0, -1]).sample()
      token_sequence += [token_pred.item()]
  \<close>
  The loop counter is the number of iterations left.
\<close>

fun generate_loop ::
    "('t, 'g, 'o) engine \<Rightarrow> module \<Rightarrow> real \<Rightarrow> nat \<Rightarrow> nat list \<Rightarrow> ('t, 'g) world
       \<Rightarrow> (py_error + nat list) \<times> ('t, 'g) world" where
  "generate_loop E model temperature 0 token_sequence w = (Inr token_sequence, w)"
| "generate_loop E model temperature (Suc n) token_sequence w =
     (let x = tensor_of_sequence token_sequence
      in case call_model E model x w of
           (Inl e, w) \<Rightarrow> (Inl e, w)
         | (Inr token_logits, w) \<Rightarrow>
             (case last_logits token_logits of
                Inl e \<Rightarrow> (Inl e, w)
              | Inr logits \<Rightarrow>
                  (case sample E (sampling_distribution temperature logits) (rng w) of
                     (token_pred, g) \<Rightarrow>
                       generate_loop E model temperature n (token_sequence @ [token_pred])
                         (w\<lparr>rng := g\<rparr>))))"

text \<open>
  \<^verbatim>\<open>
  def generate(model, prompt, tokenizer, output_length=40, temperature=1.0,
               random_seed=42, device_=device("cpu")):
      manual_seed(random_seed)
      model.to(device_)
      model.eval()
      prompt_tokens = tokenizer(prompt)
      token_sequence = prompt_tokens.copy()
      for _ in range(output_length): ...
      new_token_sequence = token_sequence[len(prompt_tokens):]
      new_text = " " + " ".join(tokenizer.tokens2text(new_token_sequence))
      new_text = capitalise_sentences(new_text, sentence_delimiter=EOS_DELIM)
      new_text = new_text.replace(EOS_DELIM, ". ")
      return "==> " + prompt.upper() + new_text + "..."
  \<close>
  \<open>generate_tokens\<close> is the function up to \<open>new_token_sequence\<close>; \<open>generate\<close> formats
  it. Both return the world they leave behind. Moving the model to a device does not change
  any value. \<open>range\<close> of a non-positive length is empty.
\<close>

definition generate_tokens ::
    "('t, 'g, 'o) engine \<Rightarrow> module \<Rightarrow> string \<Rightarrow> tokenizer \<Rightarrow> int \<Rightarrow> real \<Rightarrow> int
       \<Rightarrow> ('t, 'g) world \<Rightarrow> (py_error + nat list) \<times> ('t, 'g) world" where
  "generate_tokens E model prompt tok output_length temperature random_seed w =
     (let w = w\<lparr>rng := manual_seed E random_seed\<rparr>;
          w = w\<lparr>training := False\<rparr>;
          prompt_tokens = encode tok prompt;
          token_sequence = prompt_tokens
      in case generate_loop E model temperature (nat output_length) token_sequence w of
           (Inl e, w) \<Rightarrow> (Inl e, w)
         | (Inr token_sequence, w) \<Rightarrow> (Inr (drop (length prompt_tokens) token_sequence), w))"

definition generate ::
    "('t, 'g, 'o) engine \<Rightarrow> text_utils \<Rightarrow> module \<Rightarrow> string \<Rightarrow> tokenizer \<Rightarrow> int \<Rightarrow> real \<Rightarrow> int
       \<Rightarrow> ('t, 'g) world \<Rightarrow> (py_error + string) \<times> ('t, 'g) world" where
  "generate E U model prompt tok output_length temperature random_seed w =
     (case generate_tokens E model prompt tok output_length temperature random_seed w of
        (Inl e, w) \<Rightarrow> (Inl e, w)
      | (Inr new_token_sequence, w) \<Rightarrow>
          (let new_text = '' '' @ join '' '' (tokens2text tok new_token_sequence);
               new_text = capitalise_sentences U new_text (EOS_DELIM U);
               new_text = replace (EOS_DELIM U) ''. '' new_text
           in (Inr (''==> '' @ upper prompt @ new_text @ ''...''), w)))"

section \<open>Training loop\<close>

text \<open>Float arithmetic and comparison; NaN propagates and compares False.\<close>

fun fadd :: "pyfloat \<Rightarrow> pyfloat \<Rightarrow> pyfloat" where
  "fadd (Fin a) (Fin b) = Fin (a + b)"
| "fadd _ _ = NaN"

fun flt :: "pyfloat \<Rightarrow> pyfloat \<Rightarrow> bool" where
  "flt (Fin a) (Fin b) = (a < b)"
| "flt _ _ = False"

text \<open>\<open>x / len(data)\<close>: a float divided by an int, raising on zero.\<close>

fun fdiv_len :: "pyfloat \<Rightarrow> nat \<Rightarrow> py_error + pyfloat" where
  "fdiv_len x 0 = Inl ZeroDivisionError"
| "fdiv_len (Fin a) n = Inr (Fin (a / real n))"
| "fdiv_len NaN n = Inr NaN"

text \<open>
  Python's \<open>min\<close> of a sequence: the first element, replaced by each later element that
  compares less than the current minimum; the empty sequence raises.
\<close>

definition py_min :: "pyfloat list \<Rightarrow> py_error + pyfloat" where
  "py_min xs = (case xs of
                  [] \<Rightarrow> Inl (ValueError ''min() arg is an empty sequence'')
                | x # rest \<Rightarrow> Inr (fold (\<lambda>v m. if flt v m then v else m) rest x))"

text \<open>\<open>d[k] = v\<close> on a dictionary in insertion order.\<close>

fun dict_set :: "('k \<times> 'v) list \<Rightarrow> 'k \<Rightarrow> 'v \<Rightarrow> ('k \<times> 'v) list" where
  "dict_set [] k v = [(k, v)]"
| "dict_set ((k', v') # d) k v = (if k' = k then (k, v) # d else (k', v') # dict_set d k v)"

text \<open>
  \<open>LambdaLR(optimizer, lrs_fn)\<close> keeps a step counter and the current factor. Its
  constructor performs the initial step, which evaluates \<open>lrs_fn(0)\<close>; each
  \<open>step()\<close> increments the counter and evaluates \<open>lrs_fn\<close> there.
\<close>

record scheduler =
  last_epoch :: int
  factor :: real

definition LambdaLR :: "(int \<Rightarrow> py_error + real) \<Rightarrow> py_error + scheduler" where
  "LambdaLR lrs_fn =
     (case lrs_fn 0 of Inl e \<Rightarrow> Inl e | Inr f \<Rightarrow> Inr \<lparr>last_epoch = 0, factor = f\<rparr>)"

definition scheduler_step :: "(int \<Rightarrow> py_error + real) \<Rightarrow> scheduler \<Rightarrow> py_error + scheduler" where
  "scheduler_step lrs_fn s =
     (case lrs_fn (last_epoch s + 1) of
        Inl e \<Rightarrow> Inl e
      | Inr f \<Rightarrow> Inr \<lparr>last_epoch = last_epoch s + 1, factor = f\<rparr>)"

text \<open>The world of a training run also holds the optimiser and the scheduler.\<close>

record ('t, 'g, 'o) trainer = "('t, 'g) world" +
  optimizer :: 'o
  lrs :: scheduler

text \<open>
  \<^verbatim>\<open>
  def _train_step(x_batch, y_batch, model, loss_fn, optimizer, lr_scheduler, clip_grads=None):
      model.train()
      y_pred = model(x_batch)
      loss_batch = loss_fn(y_pred.permute(0, 2, 1), y_batch)
      optimizer.zero_grad()
      loss_batch.backward()
      if clip_grads:
          clip_grad_norm_(model.parameters(), clip_grads)
      optimizer.step()
      lr_scheduler.step()
      return loss_batch.item()
  \<close>
  The optimiser steps at the base learning rate times the scheduler's current factor and
  writes the new values into the model's tensors in place.
\<close>

definition train_step ::
    "('t, 'g, 'o) engine \<Rightarrow> (int \<Rightarrow> py_error + real) \<Rightarrow> real
       \<Rightarrow> nat tensor2 \<Rightarrow> nat tensor2 \<Rightarrow> module
       \<Rightarrow> (real tensor3 \<Rightarrow> nat tensor2 \<Rightarrow> py_error + pyfloat) \<Rightarrow> real option
       \<Rightarrow> ('t, 'g, 'o, 'x) trainer_scheme
       \<Rightarrow> py_error + (pyfloat \<times> ('t, 'g, 'o, 'x) trainer_scheme)" where
  "train_step E lrs_fn learning_rate x_batch y_batch model loss_fn clip_grads w =
     (let w = w\<lparr>training := True\<rparr>;
          g = rng w
      in case call_model E model x_batch w of
           (Inl e, w) \<Rightarrow> Inl e
         | (Inr y_pred, w) \<Rightarrow>
             (case loss_batch loss_fn y_pred y_batch of
                Inl e \<Rightarrow> Inl e
              | Inr loss \<Rightarrow>
                  (case backward_step E (optimizer w) (learning_rate * factor (lrs w))
                          (case clip_grads of None \<Rightarrow> None
                                            | Some c \<Rightarrow> if c = 0 then None else Some c)
                          (read_parameters model w) g x_batch y_batch of
                     (values, opt) \<Rightarrow>
                       (let w = write_parameters model values (w\<lparr>optimizer := opt\<rparr>)
                        in case scheduler_step lrs_fn (lrs w) of
                             Inl e \<Rightarrow> Inl e
                           | Inr s \<Rightarrow> Inr (loss, w\<lparr>lrs := s\<rparr>)))))"

text \<open>
  \<^verbatim>\<open>
  def _val_step(x_batch, y_batch, model, loss_fn):
      model.eval()
      y_pred = model(x_batch)
      loss_batch = loss_fn(y_pred.permute(0, 2, 1), y_batch)
      return loss_batch.item()
  \<close>
\<close>

definition val_step ::
    "('t, 'g, 'o) engine \<Rightarrow> nat tensor2 \<Rightarrow> nat tensor2 \<Rightarrow> module
       \<Rightarrow> (real tensor3 \<Rightarrow> nat tensor2 \<Rightarrow> py_error + pyfloat)
       \<Rightarrow> ('t, 'g, 'o, 'x) trainer_scheme
       \<Rightarrow> py_error + (pyfloat \<times> ('t, 'g, 'o, 'x) trainer_scheme)" where
  "val_step E x_batch y_batch model loss_fn w =
     (let w = w\<lparr>training := False\<rparr>
      in case call_model E model x_batch w of
           (Inl e, w) \<Rightarrow> Inl e
         | (Inr y_pred, w) \<Rightarrow>
             (case loss_batch loss_fn y_pred y_batch of
                Inl e \<Rightarrow> Inl e
              | Inr loss \<Rightarrow> Inr (loss, w)))"

text \<open>
  The two inner loops of an epoch, over the batches of a loader (a list of input and
  target batches, in the order the loader yields them), accumulating the loss.
\<close>

fun train_batches ::
    "('t, 'g, 'o) engine \<Rightarrow> (int \<Rightarrow> py_error + real) \<Rightarrow> real \<Rightarrow> module
       \<Rightarrow> (real tensor3 \<Rightarrow> nat tensor2 \<Rightarrow> py_error + pyfloat) \<Rightarrow> real option
       \<Rightarrow> (nat tensor2 \<times> nat tensor2) list \<Rightarrow> pyfloat \<Rightarrow> ('t, 'g, 'o, 'x) trainer_scheme
       \<Rightarrow> py_error + (pyfloat \<times> ('t, 'g, 'o, 'x) trainer_scheme)" where
  "train_batches E lrs_fn learning_rate model loss_fn clip_grads [] loss_train w =
     Inr (loss_train, w)"
| "train_batches E lrs_fn learning_rate model loss_fn clip_grads ((x, y) # batches) loss_train w =
     (case train_step E lrs_fn learning_rate x y model loss_fn clip_grads w of
        Inl e \<Rightarrow> Inl e
      | Inr (l, w) \<Rightarrow>
          train_batches E lrs_fn learning_rate model loss_fn clip_grads batches
            (fadd loss_train l) w)"

fun val_batches ::
    "('t, 'g, 'o) engine \<Rightarrow> module \<Rightarrow> (real tensor3 \<Rightarrow> nat tensor2 \<Rightarrow> py_error + pyfloat)
       \<Rightarrow> (nat tensor2 \<times> nat tensor2) list \<Rightarrow> pyfloat \<Rightarrow> ('t, 'g, 'o, 'x) trainer_scheme
       \<Rightarrow> py_error + (pyfloat \<times> ('t, 'g, 'o, 'x) trainer_scheme)" where
  "val_batches E model loss_fn [] loss_val w = Inr (loss_val, w)"
| "val_batches E model loss_fn ((x, y) # batches) loss_val w =
     (case val_step E x y model loss_fn w of
        Inl e \<Rightarrow> Inl e
      | Inr (l, w) \<Rightarrow> val_batches E model loss_fn batches (fadd loss_val l) w)"

text \<open>
  The best checkpoint, a dictionary with the keys \<open>state_dict\<close>, \<open>loss\<close> and
  \<open>epoch\<close>. \<open>model.state_dict()\<close> is a dictionary from names to the model's own
  tensors, and \<open>.copy()\<close> copies the dictionary, not the tensors: the checkpoint holds
  references into the store.
\<close>

record checkpoint =
  ckpt_state_dict :: module
  ckpt_loss :: pyfloat
  ckpt_epoch :: int

record ('t, 'g, 'o) train_state = "('t, 'g, 'o) trainer" +
  train_losses :: "(int \<times> pyfloat) list"
  val_losses :: "(int \<times> pyfloat) list"
  best_checkpoint :: "checkpoint option"

text \<open>
  One iteration of the epoch loop, up to the checkpoint decision:
  \<^verbatim>\<open>
  loss_train = 0.0
  for i, (x_batch, y_batch) in enumerate(train_data, start=1):
      loss_train += _train_step(x, y, model, loss_fn, optimizer, lrs, clip_grads)
  loss_val = 0.0
  for x_batch, y_batch in val_data:
      loss_val += _val_step(x, y, model, loss_fn)
  train_losses[epoch] = loss_train / len(train_data)
  val_losses[epoch] = loss_val / len(val_data)
  if epoch == 1 or val_losses[epoch] < min(val_losses.values()):
      best_checkpoint = {"state_dict": model.state_dict().copy(),
                         "loss": val_losses[epoch], "epoch": epoch}
  \<close>
\<close>

definition epoch_body ::
    "('t, 'g, 'o) engine \<Rightarrow> (int \<Rightarrow> py_error + real) \<Rightarrow> real \<Rightarrow> module
       \<Rightarrow> (real tensor3 \<Rightarrow> nat tensor2 \<Rightarrow> py_error + pyfloat) \<Rightarrow> real option
       \<Rightarrow> (nat tensor2 \<times> nat tensor2) list \<Rightarrow> (nat tensor2 \<times> nat tensor2) list
       \<Rightarrow> int \<Rightarrow> ('t, 'g, 'o) train_state \<Rightarrow> py_error + ('t, 'g, 'o) train_state" where
  "epoch_body E lrs_fn learning_rate model loss_fn clip_grads train_data val_data epoch st =
     (case train_batches E lrs_fn learning_rate model loss_fn clip_grads train_data (Fin 0) st of
        Inl e \<Rightarrow> Inl e
      | Inr (loss_train, st) \<Rightarrow>
     (case val_batches E model loss_fn val_data (Fin 0) st of
        Inl e \<Rightarrow> Inl e
      | Inr (loss_val, st) \<Rightarrow>
     (case fdiv_len loss_train (length train_data) of
        Inl e \<Rightarrow> Inl e
      | Inr tr \<Rightarrow>
     (let st = st\<lparr>train_losses := dict_set (train_losses st) epoch tr\<rparr>
      in case fdiv_len loss_val (length val_data) of
        Inl e \<Rightarrow> Inl e
      | Inr vl \<Rightarrow>
          (let st = st\<lparr>val_losses := dict_set (val_losses st) epoch vl\<rparr>
           in case (if epoch = 1 then Inr True
                    else case py_min (map snd (val_losses st)) of
                           Inl e \<Rightarrow> Inl e
                         | Inr m \<Rightarrow> Inr (flt vl m)) of
                Inl e \<Rightarrow> Inl e
              | Inr True \<Rightarrow>
                  Inr (st\<lparr>best_checkpoint :=
                             Some \<lparr>ckpt_state_dict = model, ckpt_loss = vl,
                                    ckpt_epoch = epoch\<rparr>\<rparr>)
              | Inr False \<Rightarrow> Inr st)))))"

text \<open>
  The epoch loop \<open>for epoch in range(1, n_epochs+1)\<close>, over the epochs still to run.
  \<open>_early_stop\<close> is imported from the utils module and is a parameter here.
  \<^verbatim>\<open>
      if _early_stop(val_losses):
          break
  \<close>
\<close>

fun run_epochs ::
    "('t, 'g, 'o) engine \<Rightarrow> ((int \<times> pyfloat) list \<Rightarrow> bool) \<Rightarrow> (int \<Rightarrow> py_error + real) \<Rightarrow> real
       \<Rightarrow> module \<Rightarrow> (real tensor3 \<Rightarrow> nat tensor2 \<Rightarrow> py_error + pyfloat) \<Rightarrow> real option
       \<Rightarrow> (nat tensor2 \<times> nat tensor2) list \<Rightarrow> (nat tensor2 \<times> nat tensor2) list
       \<Rightarrow> int list \<Rightarrow> ('t, 'g, 'o) train_state \<Rightarrow> py_error + ('t, 'g, 'o) train_state" where
  "run_epochs E early_stop lrs_fn learning_rate model loss_fn clip_grads train_data val_data
       [] st = Inr st"
| "run_epochs E early_stop lrs_fn learning_rate model loss_fn clip_grads train_data val_data
       (epoch # epochs) st =
     (case epoch_body E lrs_fn learning_rate model loss_fn clip_grads train_data val_data
             epoch st of
        Inl e \<Rightarrow> Inl e
      | Inr st \<Rightarrow>
          if early_stop (val_losses st) then Inr st
          else run_epochs E early_stop lrs_fn learning_rate model loss_fn clip_grads
                 train_data val_data epochs st)"

text \<open>
  \<open>model.load_state_dict(sd)\<close> requires the names of \<open>sd\<close> to be those of the model
  and copies each tensor of \<open>sd\<close> into the model's tensor of that name.
\<close>

definition load_state_dict ::
    "module \<Rightarrow> module \<Rightarrow> ('t, 'g, 'x) world_scheme \<Rightarrow> py_error + ('t, 'g, 'x) world_scheme" where
  "load_state_dict model sd w =
     (if set (map fst sd) \<noteq> set (map fst model) then Inl (RuntimeError ''state_dict keys'')
      else Inr (w\<lparr>tensors := fold (\<lambda>(name, src) h. case map_of model name of
                                                         Some r \<Rightarrow> h(r := h src)
                                                       | None \<Rightarrow> h)
                                  sd (tensors w)\<rparr>))"

text \<open>
  What follows the epoch loop:
  \<^verbatim>\<open>
  print(f"|-- epoch: {best_checkpoint['epoch']}")
  print(f"|-- loss: {best_checkpoint['loss']:.4f}")
  model.load_state_dict(best_checkpoint["state_dict"])
  return train_losses, val_losses
  \<close>
  \<open>best_checkpoint\<close> is a local variable assigned only inside the loop; reading it
  unassigned raises.
\<close>

definition finalize ::
    "module \<Rightarrow> ('t, 'g, 'o) train_state
       \<Rightarrow> py_error + (((int \<times> pyfloat) list \<times> (int \<times> pyfloat) list) \<times> ('t, 'g, 'o) train_state)" where
  "finalize model st =
     (case best_checkpoint st of
        None \<Rightarrow> Inl (UnboundLocalError ''best_checkpoint'')
      | Some c \<Rightarrow>
          (case load_state_dict model (ckpt_state_dict c) st of
             Inl e \<Rightarrow> Inl e
           | Inr st \<Rightarrow> Inr ((train_losses st, val_losses st), st)))"

text \<open>
  The state in which the epoch loop starts:
  \<^verbatim>\<open>
  manual_seed(random_seed)
  optimizer = Adam(model.parameters(), lr=learning_rate)
  loss_fn = CrossEntropyLoss(ignore_index=PAD_TOKEN_IDX)
  n_batches = len(train_data)
  n_warmup_steps = math.floor(warmup_epochs * n_batches)
  n_steps = n_epochs * n_batches
  lrs_fn = partial(warmup_schedule, warmup_steps=n_warmup_steps, max_steps=n_steps)
  lrs = LambdaLR(optimizer, lrs_fn)
  train_losses = {}
  val_losses = {}
  \<close>
\<close>

definition lrs_fn_of :: "(nat tensor2 \<times> nat tensor2) list \<Rightarrow> int \<Rightarrow> real \<Rightarrow> int \<Rightarrow> py_error + real" where
  "lrs_fn_of train_data n_epochs warmup_epochs =
     (let n_batches = int (length train_data);
          n_warmup_steps = \<lfloor>warmup_epochs * real_of_int n_batches\<rfloor>;
          n_steps = n_epochs * n_batches
      in (\<lambda>step. warmup_schedule step n_warmup_steps n_steps))"

definition train_init ::
    "('t, 'g, 'o) engine \<Rightarrow> module \<Rightarrow> (nat tensor2 \<times> nat tensor2) list \<Rightarrow> int \<Rightarrow> real \<Rightarrow> real
       \<Rightarrow> int \<Rightarrow> ('t, 'g) world \<Rightarrow> py_error + ('t, 'g, 'o) train_state" where
  "train_init E model train_data n_epochs learning_rate warmup_epochs random_seed w =
     (let w = w\<lparr>rng := manual_seed E random_seed\<rparr>;
          opt = Adam E (read_parameters model w) learning_rate
      in case LambdaLR (lrs_fn_of train_data n_epochs warmup_epochs) of
           Inl e \<Rightarrow> Inl e
         | Inr s \<Rightarrow>
             Inr \<lparr>tensors = tensors w, training = training w, rng = rng w,
                  optimizer = opt, lrs = s,
                  train_losses = [], val_losses = [], best_checkpoint = None\<rparr>)"

text \<open>
  \<^verbatim>\<open>
  def train(model, train_data, val_data, n_epochs, learning_rate=0.001,
            warmup_epochs=0.5, clip_grads=None, random_seed=42):
  \<close>
  The result is the pair of loss histories together with the state the run leaves behind.
\<close>

definition train ::
    "('t, 'g, 'o) engine \<Rightarrow> ((int \<times> pyfloat) list \<Rightarrow> bool) \<Rightarrow> nat \<Rightarrow> module
       \<Rightarrow> (nat tensor2 \<times> nat tensor2) list \<Rightarrow> (nat tensor2 \<times> nat tensor2) list
       \<Rightarrow> int \<Rightarrow> real \<Rightarrow> real \<Rightarrow> real option \<Rightarrow> int \<Rightarrow> ('t, 'g) world
       \<Rightarrow> py_error + (((int \<times> pyfloat) list \<times> (int \<times> pyfloat) list) \<times> ('t, 'g, 'o) train_state)" where
  "train E early_stop PAD_TOKEN_IDX model train_data val_data n_epochs learning_rate
       warmup_epochs clip_grads random_seed w =
     (case train_init E model train_data n_epochs learning_rate warmup_epochs random_seed w of
        Inl e \<Rightarrow> Inl e
      | Inr st \<Rightarrow>
          (case run_epochs E early_stop (lrs_fn_of train_data n_epochs warmup_epochs)
                  learning_rate model (CrossEntropyLoss PAD_TOKEN_IDX) clip_grads
                  train_data val_data [1..n_epochs] st of
             Inl e \<Rightarrow> Inl e
           | Inr st \<Rightarrow> finalize model st))"

section \<open>Worlds that agree on a model\<close>

text \<open>
  Two worlds agree on a model when they give the model's tensors the same values and have
  the same training flag and generator state. The rest of the store may differ.
\<close>

definition agree :: "module \<Rightarrow> ('t, 'g) world \<Rightarrow> ('t, 'g) world \<Rightarrow> bool" where
  "agree model w w' \<longleftrightarrow>
     read_parameters model w = read_parameters model w' \<and> training w = training w' \<and> rng w = rng w'"

section \<open>A small instance\<close>

text \<open>
  A model with one scalar parameter \<open>v\<close> over a two-token vocabulary, on which the
  functions above can be run: the logits are \<open>[ln v, 0]\<close> at every position, an update
  multiplies the parameter by \<open>k\<close>, the generator state is a counter, and a sample is the
  parity of the counter. Token 0 is PAD; the only batch has one sequence of one token, with
  input and target token 1, so its loss is \<open>ln (v + 1)\<close>.
\<close>

definition toy_logits :: "(string \<times> real) list \<Rightarrow> nat tensor2 \<Rightarrow> real tensor3" where
  "toy_logits ps x =
     \<lparr>dim0 = rows x, dim1 = cols x, dim2 = 2,
      at3 = (\<lambda>n d c. if c = 0 then ln (case ps of [] \<Rightarrow> 1 | (name, v) # _ \<Rightarrow> v) else 0)\<rparr>"

definition toy_engine :: "real \<Rightarrow> (real, nat, unit) engine" where
  "toy_engine k =
     \<lparr>manual_seed = (\<lambda>seed. nat \<bar>seed\<bar>),
      forward_eval = (\<lambda>ps x. Inr (toy_logits ps x)),
      forward_train = (\<lambda>ps g x. (Inr (toy_logits ps x), Suc g)),
      Adam = (\<lambda>ps lr. ()),
      backward_step = (\<lambda>opt lr clip ps g x y. (map (\<lambda>(name, v). (name, k * v)) ps, opt)),
      sample = (\<lambda>probs g. (g mod 2, Suc g))\<rparr>"

definition toy_model :: module where
  "toy_model = [(''v'', 0)]"

definition toy_world :: "real \<Rightarrow> (real, nat) world" where
  "toy_world v = \<lparr>tensors = (\<lambda>r. v), training = False, rng = 0\<rparr>"

definition toy_batch :: "nat tensor2 \<times> nat tensor2" where
  "toy_batch = (\<lparr>rows = 1, cols = 1, at2 = (\<lambda>i j. 1)\<rparr>, \<lparr>rows = 1, cols = 1, at2 = (\<lambda>i j. 1)\<rparr>)"

definition toy_tokenizer :: tokenizer where
  "toy_tokenizer = \<lparr>encode = (\<lambda>s. map (\<lambda>c. of_char c mod 2) s),
                     tokens2text = (\<lambda>ts. map (\<lambda>t. if t = 0 then ''a'' else ''b'') ts)\<rparr>"

definition toy_utils :: text_utils where
  "toy_utils = \<lparr>capitalise_sentences = (\<lambda>s delim. s), EOS_DELIM = ''|''\<rparr>"

section \<open>Properties of the learning-rate schedule\<close>

text \<open>
  C3. The schedule is claimed to be total for every \<open>step \<ge> 0\<close> and
  \<open>warmup_steps \<ge> 0\<close>, the warm-up branch being skipped when \<open>warmup_steps = 0\<close>.
  The branch is guarded by \<open>step <= warmup_steps\<close> only, so at step 0 with no warm-up
  steps it is taken and divides \<open>0 / 0\<close>: the call raises \<open>ZeroDivisionError\<close>.
\<close>

theorem warmup_schedule_zero_warmup_raises:
  "warmup_schedule 0 0 10 = Inl ZeroDivisionError"
  by (simp add: warmup_schedule_def)

text \<open>For later steps the comparison does skip the branch, and the factor is the cosine term.\<close>

lemma warmup_schedule_zero_warmup_later:
  assumes "1 \<le> s" and "M \<noteq> 0"
  shows "warmup_schedule s 0 M = Inr (0.5 * (1 + cos (pi * real_of_int s / real_of_int M)))"
  using assms by (simp add: warmup_schedule_def)

text \<open>
  The ramp \<open>x \<mapsto> (1 + cos (a x)) x\<close> has derivative \<open>1 + cos (a x) - a x sin (a x)\<close>,
  which is non-negative as long as \<open>a x \<le> \<pi> / 3\<close>.
\<close>

lemma ramp_deriv:
  fixes a x :: real
  shows "((\<lambda>x. (1 + cos (a * x)) * x) has_real_derivative
          ((1 + cos (a * x)) - a * x * sin (a * x))) (at x)"
  by (auto intro!: derivative_eq_intros simp: algebra_simps)

lemma ramp_deriv_nonneg:
  fixes a z :: real
  assumes "0 \<le> a * z" and "a * z \<le> pi / 3"
  shows "0 \<le> (1 + cos (a * z)) - a * z * sin (a * z)"
proof -
  have "cos (pi / 3) \<le> cos (a * z)"
    using assms pi_gt_zero by (intro cos_monotone_0_pi_le) auto
  then have c: "1 / 2 \<le> cos (a * z)"
    by (simp add: cos_60)
  have "a * z * sin (a * z) \<le> a * z * 1"
    using assms(1) sin_le_one by (intro mult_left_mono) auto
  also have "\<dots> \<le> pi / 3"
    using assms(2) by simp
  also have "\<dots> \<le> 4 / 3"
    using pi_less_4 by simp
  finally have "a * z * sin (a * z) \<le> 4 / 3" .
  with c show ?thesis by simp
qed

lemma ramp_mono:
  fixes a x y :: real
  assumes "0 \<le> a" and "0 \<le> x" and "x \<le> y" and "a * y \<le> pi / 3"
  shows "(1 + cos (a * x)) * x \<le> (1 + cos (a * y)) * y"
proof (rule DERIV_nonneg_imp_nondecreasing [OF assms(3)])
  fix z assume z: "x \<le> z" "z \<le> y"
  have "0 \<le> a * z" using assms z by simp
  moreover have "a * z \<le> a * y" using assms z by (intro mult_left_mono) auto
  ultimately have "0 \<le> (1 + cos (a * z)) - a * z * sin (a * z)"
    using assms(4) by (intro ramp_deriv_nonneg) auto
  then show "\<exists>d. ((\<lambda>x. (1 + cos (a * x)) * x) has_real_derivative d) (at z) \<and> 0 \<le> d"
    using ramp_deriv by blast
qed

lemma warmup_schedule_formula:
  assumes "M \<noteq> 0" and "s \<le> W \<longrightarrow> W \<noteq> 0"
  shows "warmup_schedule s W M =
     Inr (0.5 * (1 + cos (pi * real_of_int s / real_of_int M))
          * (if s \<le> W then real_of_int s / real_of_int W else 1))"
  using assms by (simp add: warmup_schedule_def Let_def)

lemma warmup_schedule_mono:
  assumes "1 \<le> W" and "3 * W \<le> M" and "0 \<le> s" and "s \<le> t" and "t \<le> W"
  shows "factor_le (warmup_schedule s W M) (warmup_schedule t W M)"
proof -
  define a where "a = pi / real_of_int M"
  have M: "0 < M" using assms by linarith
  have a0: "0 \<le> a" using M by (simp add: a_def)
  have "3 * t \<le> M" using assms by linarith
  then have "real_of_int (3 * t) \<le> real_of_int M"
    by (simp only: of_int_le_iff)
  then have "pi * real_of_int t \<le> pi * (real_of_int M / 3)"
    by (intro mult_left_mono) auto
  then have at: "a * real_of_int t \<le> pi / 3"
    using M by (simp add: a_def field_simps)
  have h: "(1 + cos (a * real_of_int s)) * real_of_int s
           \<le> (1 + cos (a * real_of_int t)) * real_of_int t"
    using assms a0 at by (intro ramp_mono) auto
  have eq: "pi * real_of_int k / real_of_int M = a * real_of_int k" for k
    by (simp add: a_def)
  have W: "0 < real_of_int W" using assms by simp
  have "(1 + cos (a * real_of_int s)) * real_of_int s / real_of_int W
        \<le> (1 + cos (a * real_of_int t)) * real_of_int t / real_of_int W"
    using h W by (simp add: divide_right_mono)
  then show ?thesis
    using assms M by (simp add: warmup_schedule_def factor_le_def Let_def eq)
qed

text \<open>
  C7. The factor is claimed to be non-decreasing on \<open>[0, warmup_steps]\<close>. With two
  warm-up steps out of two steps in all (one epoch of two batches, \<open>warmup_epochs = 1\<close>)
  the factor is \<open>1/4\<close> at step 1 and \<open>0\<close> at step 2: the cosine term has already
  decayed to zero at the end of the warm-up.
\<close>

theorem warmup_schedule_not_monotone:
  "warmup_schedule 1 2 2 = Inr (1 / 4) \<and> warmup_schedule 2 2 2 = Inr 0 \<and> (0::real) < 1 / 4"
  by (simp add: warmup_schedule_def)

text \<open>
  C7, amended. Whenever the divisions are defined the factor is
  \<open>0.5 * (1 + cos (\<pi> s / max_steps))\<close>, multiplied by \<open>s / warmup_steps\<close> when
  \<open>s \<le> warmup_steps\<close>; with at least one warm-up step the factor at step 0 is 0; and
  the factor is non-decreasing on \<open>[0, warmup_steps]\<close> when the warm-up is at most a
  third of the run (\<open>3 * warmup_steps \<le> max_steps\<close>).
\<close>

theorem warmup_schedule_factor:
  "(M \<noteq> 0 \<and> (s \<le> W \<longrightarrow> W \<noteq> 0) \<longrightarrow>
      warmup_schedule s W M =
        Inr (0.5 * (1 + cos (pi * real_of_int s / real_of_int M))
             * (if s \<le> W then real_of_int s / real_of_int W else 1)))
   \<and> (1 \<le> W \<and> M \<noteq> 0 \<longrightarrow> warmup_schedule 0 W M = Inr 0)
   \<and> (1 \<le> W \<and> 3 * W \<le> M \<and> 0 \<le> s' \<and> s' \<le> t \<and> t \<le> W \<longrightarrow>
        factor_le (warmup_schedule s' W M) (warmup_schedule t W M))"
proof (intro conjI impI)
  assume "M \<noteq> 0 \<and> (s \<le> W \<longrightarrow> W \<noteq> 0)"
  then show "warmup_schedule s W M =
        Inr (0.5 * (1 + cos (pi * real_of_int s / real_of_int M))
             * (if s \<le> W then real_of_int s / real_of_int W else 1))"
    by (intro warmup_schedule_formula) auto
next
  assume "1 \<le> W \<and> M \<noteq> 0"
  then show "warmup_schedule 0 W M = Inr 0"
    by (simp add: warmup_schedule_def)
next
  assume "1 \<le> W \<and> 3 * W \<le> M \<and> 0 \<le> s' \<and> s' \<le> t \<and> t \<le> W"
  then show "factor_le (warmup_schedule s' W M) (warmup_schedule t W M)"
    by (intro warmup_schedule_mono) auto
qed

theorem warmup_schedule_factor_witness:
  "warmup_schedule 1 2 6 = Inr ((1 + cos (pi / 6)) / 4)
   \<and> warmup_schedule 0 2 6 = Inr 0
   \<and> factor_le (warmup_schedule 1 2 6) (warmup_schedule 2 2 6)"
  using warmup_schedule_factor [of 6 1 2 1 2] by auto

section \<open>Properties of the masks\<close>

text \<open>
  C6. For a batch of shape (batch, seq_len) the causal mask has \<open>batch * n_heads\<close>
  slices of shape (seq_len, seq_len); every slice marks the pair \<open>(i, j)\<close> exactly when
  \<open>j > i\<close>, so all slices are the same, and a query position may attend to key position
  \<open>j\<close> only when \<open>j \<le> i\<close>: never to a strictly later position. The forward pass
  hands this mask to the decoder layer for both of its attention paths.
\<close>

theorem make_mask_causal:
  "dim0 (fst (make_mask PAD n_heads x)) = rows x * n_heads
   \<and> dim1 (fst (make_mask PAD n_heads x)) = cols x
   \<and> dim2 (fst (make_mask PAD n_heads x)) = cols x
   \<and> at3 (fst (make_mask PAD n_heads x)) k i j = (i < j)
   \<and> at3 (fst (make_mask PAD n_heads x)) k i j = at3 (fst (make_mask PAD n_heads x)) k' i j
   \<and> may_attend (fst (make_mask PAD n_heads x)) k i j = (j \<le> i)
   \<and> forward Ls PAD n_heads size_embed x =
       linear_layer Ls
         (decoder_layer Ls
            (position_encoder_layer Ls (scale3 (sqrt (real size_embed)) (embedding_layer Ls x)))
            (position_encoder_layer Ls (scale3 (sqrt (real size_embed)) (embedding_layer Ls x)))
            (fst (make_mask PAD n_heads x)) (snd (make_mask PAD n_heads x))
            (fst (make_mask PAD n_heads x)) (snd (make_mask PAD n_heads x)))"
  by (auto simp: make_mask_def forward_def Let_def ones_def tril_def eq_scalar3_def
        may_attend_def)

section \<open>Properties of the positional table\<close>

lemma div_term_powr:
  "real p * exp (real (2 * i) * (- ln 10000 / real E)) = real p / 10000 powr (real (2 * i) / real E)"
  by (simp add: powr_def exp_minus divide_inverse)

lemma angles_shape: "rows (angles E L) = L" "cols (angles E L) = (E + 1) div 2"
  by (simp_all add: angles_def mul_broadcast_def arange_def)

lemma angles_at:
  assumes "p < L" and "2 * i < E"
  shows "at2 (angles E L) p i = real p / 10000 powr (real (2 * i) / real E)"
proof -
  have i: "i < (E + 1) div 2" using assms by linarith
  then have "at2 (angles E L) p i = real p * exp (real (2 * i) * (- ln 10000 / real E))"
    using assms(1) by (simp add: angles_def mul_broadcast_def arange_def)
  then show ?thesis by (simp only: div_term_powr)
qed

lemma set_cols_step2_Inr:
  assumes "set_cols_step2 start t src = Inr t'"
  shows "(rows src = rows t \<or> rows src = 1) \<and> (cols src = (cols t - start + 1) div 2 \<or> cols src = 1)"
    and "t' = t\<lparr>at2 := (\<lambda>p c.
                if start \<le> c \<and> even (c - start)
                then at2 src (if rows src = rows t then p else 0)
                             (if cols src = (cols t - start + 1) div 2 then (c - start) div 2 else 0)
                else at2 t p c)\<rparr>"
  using assms unfolding set_cols_step2_def Let_def
  by (simp_all only: split: if_splits) blast+

lemma set_cols_step2_ok:
  assumes "rows src = rows t" and "cols src = (cols t - start + 1) div 2"
  shows "\<exists>t'. set_cols_step2 start t src = Inr t' \<and> rows t' = rows t \<and> cols t' = cols t"
  using assms unfolding set_cols_step2_def Let_def by simp

lemma set_cols_step2_fail:
  assumes "cols src \<noteq> (cols t - start + 1) div 2" and "cols src \<noteq> 1"
  shows "set_cols_step2 start t src = Inl (RuntimeError ''shape mismatch'')"
  using assms unfolding set_cols_step2_def Let_def by simp

lemma init_Inr:
  assumes "PositionalEncoding_init E d L = Inr pe"
  obtains t1 t2 where
    "set_cols_step2 0 (zeros L E) (map_tensor2 sin (angles E L)) = Inr t1"
    "set_cols_step2 1 t1 (map_tensor2 cos (angles E L)) = Inr t2"
    "pe = \<lparr>dropout_p = d, pe_parameters = [], pe_buffers = [(''_pos_encoding'', t2)]\<rparr>"
    "0 \<le> d" "d \<le> 1"
  using assms
  by (auto simp: PositionalEncoding_init_def Let_def angles_def split: if_splits sum.splits)

lemma init_table:
  assumes "PositionalEncoding_init E d L = Inr pe" and "p < L"
  shows "\<exists>table. pe_buffers pe = [(''_pos_encoding'', table)] \<and> pe_parameters pe = []
     \<and> rows table = L \<and> cols table = E
     \<and> (2 * i < E \<longrightarrow> at2 table p (2 * i) = sin (real p / 10000 powr (real (2 * i) / real E)))
     \<and> (2 * i + 1 < E \<longrightarrow> at2 table p (2 * i + 1) = cos (real p / 10000 powr (real (2 * i) / real E)))"
proof -
  from assms(1) obtain t1 t2 where
    s1: "set_cols_step2 0 (zeros L E) (map_tensor2 sin (angles E L)) = Inr t1" and
    s2: "set_cols_step2 1 t1 (map_tensor2 cos (angles E L)) = Inr t2" and
    pe: "pe = \<lparr>dropout_p = d, pe_parameters = [], pe_buffers = [(''_pos_encoding'', t2)]\<rparr>"
    by (rule init_Inr)
  note t1 = set_cols_step2_Inr(2) [OF s1]
  note c2 = set_cols_step2_Inr(1) [OF s2]
  note t2 = set_cols_step2_Inr(2) [OF s2]
  have sh1: "rows t1 = L" "cols t1 = E"
    by (simp_all add: t1 zeros_def)
  have sh2: "rows t2 = L" "cols t2 = E"
    by (simp_all add: t2 sh1)
  have ev: "at2 t2 p (2 * i) = sin (real p / 10000 powr (real (2 * i) / real E))" if "2 * i < E"
  proof -
    have "at2 t2 p (2 * i) = at2 t1 p (2 * i)"
      by (simp add: t2)
    also have "\<dots> = sin (at2 (angles E L) p i)"
      by (simp add: t1 zeros_def map_tensor2_def angles_shape)
    finally show ?thesis using angles_at [OF assms(2) that] by simp
  qed
  have od: "at2 t2 p (2 * i + 1) = cos (real p / 10000 powr (real (2 * i) / real E))" if "2 * i + 1 < E"
  proof -
    have cw: "cols (map_tensor2 cos (angles E L)) = (E + 1) div 2"
      by (simp add: map_tensor2_def angles_shape)
    have "(E + 1) div 2 = (E - 1 + 1) div 2 \<or> (E + 1) div 2 = 1"
      using c2 by (simp only: cw sh1)
    then have "(E + 1) div 2 = (E - 1 + 1) div 2 \<or> i = 0"
      using that by presburger
    then have w: "cols (map_tensor2 cos (angles E L)) = (cols t1 - 1 + 1) div 2 \<or> i = 0"
      by (simp only: cw sh1)
    have rw: "rows (map_tensor2 cos (angles E L)) = rows t1"
      by (simp add: map_tensor2_def angles_shape sh1)
    have "at2 t2 p (2 * i + 1) = at2 (map_tensor2 cos (angles E L)) p i"
      using w by (subst t2) (auto simp add: rw)
    then have "at2 t2 p (2 * i + 1) = cos (at2 (angles E L) p i)"
      by (simp add: map_tensor2_def)
    moreover have "2 * i < E" using that by simp
    ultimately show ?thesis using angles_at [OF assms(2)] by simp
  qed
  show ?thesis
    using ev od sh2 by (simp add: pe)
qed

lemma init_dropout_independent:
  assumes "PositionalEncoding_init E d L = Inr pe" and "0 \<le> d'" and "d' \<le> 1"
  shows "PositionalEncoding_init E d' L = Inr (pe\<lparr>dropout_p := d'\<rparr>)"
  using assms
  by (auto simp: PositionalEncoding_init_def Let_def split: if_splits sum.splits)

lemma init_unfold:
  "PositionalEncoding_init E d L =
     (if d < 0 \<or> 1 < d then Inl (ValueError ''dropout probability'')
      else case set_cols_step2 0 (zeros L E) (map_tensor2 sin (angles E L)) of
             Inl e \<Rightarrow> Inl e
           | Inr t1 \<Rightarrow>
               (case set_cols_step2 1 t1 (map_tensor2 cos (angles E L)) of
                  Inl e \<Rightarrow> Inl e
                | Inr t2 \<Rightarrow>
                    Inr \<lparr>dropout_p = d, pe_parameters = [],
                         pe_buffers = [(''_pos_encoding'', t2)]\<rparr>))"
  unfolding PositionalEncoding_init_def Let_def angles_def by (rule refl)

lemma init_even:
  assumes "even E" and "0 \<le> d" and "d \<le> 1"
  shows "\<exists>pe. PositionalEncoding_init E d L = Inr pe"
proof -
  have w0: "(E + 1) div 2 = (E - 0 + 1) div 2" by simp
  have w1: "(E + 1) div 2 = (E - 1 + 1) div 2" using assms(1) by presburger
  obtain t1 where t1: "set_cols_step2 0 (zeros L E) (map_tensor2 sin (angles E L)) = Inr t1"
      "rows t1 = L" "cols t1 = E"
    using set_cols_step2_ok [of "map_tensor2 sin (angles E L)" "zeros L E" 0] w0
    by (auto simp: map_tensor2_def angles_shape zeros_def)
  obtain t2 where t2: "set_cols_step2 1 t1 (map_tensor2 cos (angles E L)) = Inr t2"
    using set_cols_step2_ok [of "map_tensor2 cos (angles E L)" t1 1] w1 t1(2,3)
    by (auto simp: map_tensor2_def angles_shape)
  show ?thesis using assms(2,3) t1(1) t2 by (simp add: init_unfold)
qed

lemma init_odd:
  assumes "odd E" and "3 \<le> E" and "0 \<le> d" and "d \<le> 1"
  shows "PositionalEncoding_init E d L = Inl (RuntimeError ''shape mismatch'')"
proof -
  have w0: "(E + 1) div 2 = (E - 0 + 1) div 2" by simp
  have w1: "(E + 1) div 2 \<noteq> (E - 1 + 1) div 2" "(E + 1) div 2 \<noteq> 1" using assms(1,2) by presburger+
  obtain t1 where t1: "set_cols_step2 0 (zeros L E) (map_tensor2 sin (angles E L)) = Inr t1"
      "rows t1 = L" "cols t1 = E"
    using set_cols_step2_ok [of "map_tensor2 sin (angles E L)" "zeros L E" 0] w0
    by (auto simp: map_tensor2_def angles_shape zeros_def)
  have "set_cols_step2 1 t1 (map_tensor2 cos (angles E L)) = Inl (RuntimeError ''shape mismatch'')"
    using w1 t1(3) by (intro set_cols_step2_fail) (simp_all add: map_tensor2_def angles_shape)
  then show ?thesis using assms(3,4) t1(1) by (simp add: init_unfold)
qed


text \<open>
  C8. The constructor returns a module for every even embedding size (and a valid dropout
  probability). Whenever it returns a module, its table has shape
  (max_seq_len, size_embed) and holds \<open>sin (p / 10000^(2i/E))\<close> at the even column
  \<open>2i\<close> and \<open>cos (p / 10000^(2i/E))\<close> at the odd column \<open>2i + 1\<close> of every row
  \<open>p\<close>. The table is the module's only buffer and the module has no parameters, so no
  optimiser step reaches it; and it is the same for every dropout probability, being
  computed from the embedding size and the maximum length alone.
\<close>

theorem PositionalEncoding_table:
  "(even E \<and> 0 \<le> d \<and> d \<le> 1 \<longrightarrow> (\<exists>pe. PositionalEncoding_init E d L = Inr pe))
   \<and> (PositionalEncoding_init E d L = Inr pe \<and> p < L \<longrightarrow>
        (\<exists>table. pe_buffers pe = [(''_pos_encoding'', table)] \<and> pe_parameters pe = []
           \<and> rows table = L \<and> cols table = E
           \<and> (2 * i < E \<longrightarrow>
                at2 table p (2 * i) = sin (real p / 10000 powr (real (2 * i) / real E)))
           \<and> (2 * i + 1 < E \<longrightarrow>
                at2 table p (2 * i + 1) = cos (real p / 10000 powr (real (2 * i) / real E)))
           \<and> (\<forall>d'. 0 \<le> d' \<and> d' \<le> 1 \<longrightarrow>
                map_sum id pe_buffers (PositionalEncoding_init E d' L) = Inr (pe_buffers pe))))"
proof (intro conjI impI)
  assume "even E \<and> 0 \<le> d \<and> d \<le> 1"
  then show "\<exists>pe. PositionalEncoding_init E d L = Inr pe"
    by (intro init_even) blast+
next
  assume a: "PositionalEncoding_init E d L = Inr pe \<and> p < L"
  then have i: "PositionalEncoding_init E d L = Inr pe" and p: "p < L" by blast+
  from init_table [OF i p] obtain table where
    t: "pe_buffers pe = [(''_pos_encoding'', table)] \<and> pe_parameters pe = []
     \<and> rows table = L \<and> cols table = E
     \<and> (2 * i < E \<longrightarrow> at2 table p (2 * i) = sin (real p / 10000 powr (real (2 * i) / real E)))
     \<and> (2 * i + 1 < E \<longrightarrow>
          at2 table p (2 * i + 1) = cos (real p / 10000 powr (real (2 * i) / real E)))"
    by blast
  have "map_sum id pe_buffers (PositionalEncoding_init E d' L) = Inr (pe_buffers pe)"
    if "0 \<le> d' \<and> d' \<le> 1" for d'
    using init_dropout_independent [OF i, of d'] that by simp
  with t show "\<exists>table. pe_buffers pe = [(''_pos_encoding'', table)] \<and> pe_parameters pe = []
           \<and> rows table = L \<and> cols table = E
           \<and> (2 * i < E \<longrightarrow>
                at2 table p (2 * i) = sin (real p / 10000 powr (real (2 * i) / real E)))
           \<and> (2 * i + 1 < E \<longrightarrow>
                at2 table p (2 * i + 1) = cos (real p / 10000 powr (real (2 * i) / real E)))
           \<and> (\<forall>d'. 0 \<le> d' \<and> d' \<le> 1 \<longrightarrow>
                map_sum id pe_buffers (PositionalEncoding_init E d' L) = Inr (pe_buffers pe))"
    by blast
qed

theorem PositionalEncoding_table_witness:
  "\<exists>pe table. PositionalEncoding_init 2 (1 / 10) 2 = Inr pe
     \<and> pe_buffers pe = [(''_pos_encoding'', table)] \<and> pe_parameters pe = []
     \<and> at2 table 1 0 = sin 1 \<and> at2 table 1 1 = cos 1"
proof -
  have "\<exists>pe. PositionalEncoding_init 2 (1 / 10) 2 = Inr pe"
    using PositionalEncoding_table [of 2 "1 / 10" 2] by simp
  then obtain pe where pe: "PositionalEncoding_init 2 (1 / 10) 2 = Inr pe" by blast
  from PositionalEncoding_table [of 2 "1 / 10" 2 pe 1 0] pe obtain table where
    "pe_buffers pe = [(''_pos_encoding'', table)]" "pe_parameters pe = []"
    "at2 table 1 0 = sin 1" "at2 table 1 1 = cos 1"
    by auto
  with pe show ?thesis by blast
qed

section \<open>Properties of the sampling distribution\<close>

text \<open>
  The odds between two tokens under the sampling distribution are
  \<open>exp (temperature * (l\<^sub>i - l\<^sub>j))\<close>: they move away from 1 as the temperature grows.
\<close>

lemma sampling_distribution_odds:
  assumes "i < length logits" and "j < length logits"
  shows "sampling_distribution t logits ! i
         = sampling_distribution t logits ! j * exp (t * (logits ! i - logits ! j))"
proof -
  have "exp (t * logits ! i) = exp (t * logits ! j) * exp (t * (logits ! i - logits ! j))"
    by (simp add: exp_add [symmetric] algebra_simps)
  then show ?thesis using assms
    by (simp add: sampling_distribution_def Categorical_probs_def)
qed

text \<open>
  C2. A higher temperature is claimed to flatten the sampling distribution. The logits
  are multiplied by the temperature, so for the logits \<open>[0, ln 2]\<close> the distribution is
  the uniform \<open>[1/2, 1/2]\<close> at temperature 0, \<open>[1/3, 2/3]\<close> at temperature 1 and
  \<open>[1/5, 4/5]\<close> at temperature 2: the higher the temperature, the further from uniform.
\<close>

theorem sampling_distribution_higher_temperature_sharpens:
  "sampling_distribution 0 [0, ln 2] = [1 / 2, 1 / 2]
   \<and> sampling_distribution 1 [0, ln 2] = [1 / 3, 2 / 3]
   \<and> sampling_distribution 2 [0, ln 2] = [1 / 5, 4 / 5]"
proof -
  have "exp (2 * ln (2::real)) = 4"
    by (simp add: exp_double)
  then show ?thesis
    by (simp add: sampling_distribution_def Categorical_probs_def)
qed

section \<open>Properties of the loss\<close>

lemma set_positions: "(n, d) \<in> set (positions tgt) \<longleftrightarrow> n < rows tgt \<and> d < cols tgt"
  by (simp add: positions_def)

lemma class_scores_permute:
  "class_scores (permute_0_2_1 y) n d = map (\<lambda>c. at3 y n d c) [0..<dim2 y]"
  by (simp add: class_scores_def permute_0_2_1_def)

lemma counted_filter:
  "(\<Sum>x\<leftarrow>xs. if P x then 0 else (1::nat)) = length (filter (\<lambda>x. \<not> P x) xs)"
  by (induction xs) auto

lemma total_filter:
  "(\<Sum>x\<leftarrow>xs. if P x then 0 else (f x :: real)) = (\<Sum>x\<leftarrow>filter (\<lambda>x. \<not> P x) xs. f x)"
  by (induction xs) auto

lemma loss_batch_cong:
  assumes "dim0 y' = dim0 y" and "dim1 y' = dim1 y" and "dim2 y' = dim2 y"
    and "\<forall>n<rows tgt. \<forall>d<cols tgt. at2 tgt n d \<noteq> PAD \<longrightarrow> (\<forall>c<dim2 y. at3 y' n d c = at3 y n d c)"
  shows "loss_batch (CrossEntropyLoss PAD) y' tgt = loss_batch (CrossEntropyLoss PAD) y tgt"
proof -
  have sc: "class_scores (permute_0_2_1 y') n d = class_scores (permute_0_2_1 y) n d"
    if "(n, d) \<in> set (positions tgt)" "at2 tgt n d \<noteq> PAD" for n d
    using that assms by (simp add: class_scores_permute set_positions)
  have "(\<Sum>(n, d)\<leftarrow>positions tgt.
                       if at2 tgt n d = PAD then 0
                       else nll (class_scores (permute_0_2_1 y') n d) (at2 tgt n d))
      = (\<Sum>(n, d)\<leftarrow>positions tgt.
                       if at2 tgt n d = PAD then 0
                       else nll (class_scores (permute_0_2_1 y) n d) (at2 tgt n d))"
    by (rule arg_cong [where f = sum_list], rule map_cong) (auto simp: sc)
  moreover have "dim0 (permute_0_2_1 y') = dim0 (permute_0_2_1 y)"
     "dim1 (permute_0_2_1 y') = dim1 (permute_0_2_1 y)" "dim2 (permute_0_2_1 y') = dim2 (permute_0_2_1 y)"
    using assms by (simp_all add: permute_0_2_1_def)
  ultimately show ?thesis
    by (simp add: loss_batch_def CrossEntropyLoss_def Let_def)
qed

lemma loss_batch_all_pad:
  assumes "dim0 y = rows tgt" and "dim1 y = cols tgt"
    and "\<forall>n<rows tgt. \<forall>d<cols tgt. at2 tgt n d = PAD"
  shows "loss_batch (CrossEntropyLoss PAD) y tgt = Inr NaN"
proof -
  have p: "at2 tgt n d = PAD" if "(n, d) \<in> set (positions tgt)" for n d
    using that assms(3) by (simp add: set_positions)
  have "filter (\<lambda>(n, d). at2 tgt n d \<noteq> PAD) (positions tgt) = []"
    using p by (auto simp: filter_empty_conv)
  then have "(\<Sum>(n, d)\<leftarrow>positions tgt. if at2 tgt n d = PAD then 0 else (1::nat)) = 0"
    using counted_filter [of "\<lambda>(n, d). at2 tgt n d = PAD" "positions tgt"]
    by (simp add: case_prod_unfold)
  moreover have "\<not> (\<exists>(n, d) \<in> set (positions tgt). at2 tgt n d \<noteq> PAD \<and> dim1 (permute_0_2_1 y) \<le> at2 tgt n d)"
    using p by auto
  moreover have "dim0 (permute_0_2_1 y) = rows tgt" "dim2 (permute_0_2_1 y) = cols tgt"
    using assms(1,2) by (simp_all add: permute_0_2_1_def)
  ultimately show ?thesis
    by (simp add: loss_batch_def CrossEntropyLoss_def Let_def)
qed

lemma loss_batch_mean:
  assumes "dim0 y = rows tgt" and "dim1 y = cols tgt"
    and "counted = filter (\<lambda>(n, d). at2 tgt n d \<noteq> PAD) (positions tgt)"
    and "counted \<noteq> []"
    and "\<forall>n<rows tgt. \<forall>d<cols tgt. at2 tgt n d \<noteq> PAD \<longrightarrow> at2 tgt n d < dim2 y"
  shows "loss_batch (CrossEntropyLoss PAD) y tgt =
     Inr (Fin ((\<Sum>(n, d)\<leftarrow>counted. nll (map (\<lambda>c. at3 y n d c) [0..<dim2 y]) (at2 tgt n d))
               / real (length counted)))"
proof -
  have c: "(\<Sum>(n, d)\<leftarrow>positions tgt. if at2 tgt n d = PAD then 0 else (1::nat)) = length counted"
    using counted_filter [of "\<lambda>(n, d). at2 tgt n d = PAD" "positions tgt"]
    by (simp add: case_prod_unfold assms(3))
  have t: "(\<Sum>(n, d)\<leftarrow>positions tgt. if at2 tgt n d = PAD then 0
              else nll (class_scores (permute_0_2_1 y) n d) (at2 tgt n d))
         = (\<Sum>(n, d)\<leftarrow>counted. nll (map (\<lambda>c. at3 y n d c) [0..<dim2 y]) (at2 tgt n d))"
    using total_filter [of "\<lambda>x. at2 tgt (fst x) (snd x) = PAD"
         "\<lambda>x. nll (class_scores (permute_0_2_1 y) (fst x) (snd x)) (at2 tgt (fst x) (snd x))"
         "positions tgt"]
    by (simp add: case_prod_unfold assms(3) class_scores_permute)
  have "\<not> (\<exists>(n, d) \<in> set (positions tgt). at2 tgt n d \<noteq> PAD \<and> dim1 (permute_0_2_1 y) \<le> at2 tgt n d)"
    using assms(5) by (fastforce simp: set_positions permute_0_2_1_def)
  moreover have "length counted \<noteq> 0" using assms(4) by simp
  moreover have "dim0 (permute_0_2_1 y) = rows tgt" "dim2 (permute_0_2_1 y) = cols tgt"
    using assms(1,2) by (simp_all add: permute_0_2_1_def)
  ultimately show ?thesis
    using c t by (simp add: loss_batch_def CrossEntropyLoss_def Let_def)
qed


text \<open>
  C5. A batch whose targets are all PAD is claimed to give a zero loss. The mean
  reduction divides by the number of counted positions, which is then zero: the loss of a
  one-position batch with a PAD target is NaN.
\<close>

theorem loss_batch_all_PAD_is_NaN:
  "loss_batch (CrossEntropyLoss 0) \<lparr>dim0 = 1, dim1 = 1, dim2 = 2, at3 = (\<lambda>n d c. 0)\<rparr>
               \<lparr>rows = 1, cols = 1, at2 = (\<lambda>n d. 0)\<rparr> = Inr NaN"
  by (simp add: loss_batch_def CrossEntropyLoss_def permute_0_2_1_def positions_def)

text \<open>
  C5, amended. The loss ignores every position whose target is PAD: two model outputs
  that agree at the positions with a non-PAD target have the same loss, and when some
  target is not PAD the loss is the mean of the cross-entropy over the non-PAD positions
  alone. With every target equal to PAD the mean is over no position and the loss is NaN.
\<close>

theorem loss_batch_ignores_PAD:
  "(dim0 y' = dim0 y \<and> dim1 y' = dim1 y \<and> dim2 y' = dim2 y
      \<and> (\<forall>n<rows tgt. \<forall>d<cols tgt. at2 tgt n d \<noteq> PAD \<longrightarrow>
            (\<forall>c<dim2 y. at3 y' n d c = at3 y n d c))
      \<longrightarrow> loss_batch (CrossEntropyLoss PAD) y' tgt = loss_batch (CrossEntropyLoss PAD) y tgt)
   \<and> (dim0 y = rows tgt \<and> dim1 y = cols tgt
      \<and> filter (\<lambda>(n, d). at2 tgt n d \<noteq> PAD) (positions tgt) \<noteq> []
      \<and> (\<forall>n<rows tgt. \<forall>d<cols tgt. at2 tgt n d \<noteq> PAD \<longrightarrow> at2 tgt n d < dim2 y)
      \<longrightarrow> loss_batch (CrossEntropyLoss PAD) y tgt =
            Inr (Fin ((\<Sum>(n, d)\<leftarrow>filter (\<lambda>(n, d). at2 tgt n d \<noteq> PAD) (positions tgt).
                          nll (map (\<lambda>c. at3 y n d c) [0..<dim2 y]) (at2 tgt n d))
                      / real (length (filter (\<lambda>(n, d). at2 tgt n d \<noteq> PAD) (positions tgt))))))
   \<and> (dim0 y = rows tgt \<and> dim1 y = cols tgt
      \<and> (\<forall>n<rows tgt. \<forall>d<cols tgt. at2 tgt n d = PAD)
      \<longrightarrow> loss_batch (CrossEntropyLoss PAD) y tgt = Inr NaN)"
proof (intro conjI impI)
  assume "dim0 y' = dim0 y \<and> dim1 y' = dim1 y \<and> dim2 y' = dim2 y
      \<and> (\<forall>n<rows tgt. \<forall>d<cols tgt. at2 tgt n d \<noteq> PAD \<longrightarrow>
            (\<forall>c<dim2 y. at3 y' n d c = at3 y n d c))"
  then show "loss_batch (CrossEntropyLoss PAD) y' tgt = loss_batch (CrossEntropyLoss PAD) y tgt"
    by (intro loss_batch_cong) blast+
next
  assume a: "dim0 y = rows tgt \<and> dim1 y = cols tgt
      \<and> filter (\<lambda>(n, d). at2 tgt n d \<noteq> PAD) (positions tgt) \<noteq> []
      \<and> (\<forall>n<rows tgt. \<forall>d<cols tgt. at2 tgt n d \<noteq> PAD \<longrightarrow> at2 tgt n d < dim2 y)"
  show "loss_batch (CrossEntropyLoss PAD) y tgt =
            Inr (Fin ((\<Sum>(n, d)\<leftarrow>filter (\<lambda>(n, d). at2 tgt n d \<noteq> PAD) (positions tgt).
                          nll (map (\<lambda>c. at3 y n d c) [0..<dim2 y]) (at2 tgt n d))
                      / real (length (filter (\<lambda>(n, d). at2 tgt n d \<noteq> PAD) (positions tgt)))))"
    by (rule loss_batch_mean [OF _ _ refl]) (use a in blast)+
next
  assume "dim0 y = rows tgt \<and> dim1 y = cols tgt
      \<and> (\<forall>n<rows tgt. \<forall>d<cols tgt. at2 tgt n d = PAD)"
  then show "loss_batch (CrossEntropyLoss PAD) y tgt = Inr NaN"
    by (intro loss_batch_all_pad) blast+
qed

theorem loss_batch_ignores_PAD_witness:
  "loss_batch (CrossEntropyLoss 0) \<lparr>dim0 = 1, dim1 = 2, dim2 = 2, at3 = (\<lambda>n d c. if d = 0 then 7 else 0)\<rparr>
                \<lparr>rows = 1, cols = 2, at2 = (\<lambda>n d. d)\<rparr>
     = loss_batch (CrossEntropyLoss 0) \<lparr>dim0 = 1, dim1 = 2, dim2 = 2, at3 = (\<lambda>n d c. 0)\<rparr>
                \<lparr>rows = 1, cols = 2, at2 = (\<lambda>n d. d)\<rparr>
   \<and> loss_batch (CrossEntropyLoss 0) \<lparr>dim0 = 1, dim1 = 2, dim2 = 2, at3 = (\<lambda>n d c. 0)\<rparr>
                \<lparr>rows = 1, cols = 2, at2 = (\<lambda>n d. d)\<rparr> = Inr (Fin (ln 2))
   \<and> loss_batch (CrossEntropyLoss 0) \<lparr>dim0 = 1, dim1 = 2, dim2 = 2, at3 = (\<lambda>n d c. 0)\<rparr>
                \<lparr>rows = 1, cols = 2, at2 = (\<lambda>n d. 0)\<rparr> = Inr NaN"
proof -
  let ?y = "\<lparr>dim0 = 1, dim1 = 2, dim2 = 2, at3 = (\<lambda>n d c. 0::real)\<rparr>"
  let ?y' = "\<lparr>dim0 = 1, dim1 = 2, dim2 = 2, at3 = (\<lambda>n d c. if d = 0 then 7 else 0::real)\<rparr>"
  let ?tgt = "\<lparr>rows = 1, cols = 2, at2 = (\<lambda>n d. d::nat)\<rparr>"
  let ?pad = "\<lparr>rows = 1, cols = 2, at2 = (\<lambda>n d. 0::nat)\<rparr>"
  have "loss_batch (CrossEntropyLoss 0) ?y' ?tgt = loss_batch (CrossEntropyLoss 0) ?y ?tgt"
    using loss_batch_ignores_PAD [of ?y' ?y ?tgt 0] by simp
  moreover have "loss_batch (CrossEntropyLoss 0) ?y ?tgt = Inr (Fin (ln 2))"
    using loss_batch_ignores_PAD [of ?y' ?y ?tgt 0]
    by (simp add: positions_def nll_def upt_conv_Cons)
  moreover have "loss_batch (CrossEntropyLoss 0) ?y ?pad = Inr NaN"
    using loss_batch_ignores_PAD [of ?y' ?y ?pad 0] by simp
  ultimately show ?thesis by blast
qed


section \<open>Properties of the generator\<close>

lemma call_model_tensors: "tensors (snd (call_model E model x w)) = tensors w"
  by (simp add: call_model_def split: prod.splits)

lemma call_model_training: "training (snd (call_model E model x w)) = training w"
  by (simp add: call_model_def split: prod.splits)

lemma generate_loop_frame:
  "tensors (snd (generate_loop E model T n ts w)) = tensors w
   \<and> training (snd (generate_loop E model T n ts w)) = training w"
proof (induction n arbitrary: ts w)
  case 0
  then show ?case by simp
next
  case (Suc n)
  obtain r w1 where c: "call_model E model (tensor_of_sequence ts) w = (r, w1)"
    by (cases "call_model E model (tensor_of_sequence ts) w")
  have w1: "tensors w1 = tensors w" "training w1 = training w"
    using call_model_tensors [of E model "tensor_of_sequence ts" w]
          call_model_training [of E model "tensor_of_sequence ts" w] c by simp_all
  show ?case
  proof (cases r)
    case (Inl e)
    then show ?thesis using c w1 by simp
  next
    case (Inr token_logits)
    show ?thesis
    proof (cases "last_logits token_logits")
      case (Inl e)
      then show ?thesis using c w1 Inr by simp
    next
      case logits: (Inr logits)
      obtain token_pred g where s: "sample E (sampling_distribution T logits) (rng w1) = (token_pred, g)"
        by (cases "sample E (sampling_distribution T logits) (rng w1)")
      have "generate_loop E model T (Suc n) ts w
            = generate_loop E model T n (ts @ [token_pred]) (w1\<lparr>rng := g\<rparr>)"
        using c Inr logits s by simp
      then show ?thesis
        using Suc.IH [of "ts @ [token_pred]" "w1\<lparr>rng := g\<rparr>"] w1 by simp
    qed
  qed
qed


lemma generate_tokens_frame:
  "tensors (snd (generate_tokens E model prompt tok n T seed w)) = tensors w
   \<and> training (snd (generate_tokens E model prompt tok n T seed w)) = False"
proof -
  let ?w = "w\<lparr>rng := manual_seed E seed, training := False\<rparr>"
  obtain r w1 where l: "generate_loop E model T (nat n) (encode tok prompt) ?w = (r, w1)"
    by (cases "generate_loop E model T (nat n) (encode tok prompt) ?w")
  have "tensors w1 = tensors w" "training w1 = False"
    using generate_loop_frame [of E model T "nat n" "encode tok prompt" ?w] l by simp_all
  then show ?thesis
    using l by (cases r) (simp_all add: generate_tokens_def)
qed

lemma generate_frame:
  "tensors (snd (generate E U model prompt tok n T seed w)) = tensors w
   \<and> training (snd (generate E U model prompt tok n T seed w)) = False"
proof -
  obtain r w1 where l: "generate_tokens E model prompt tok n T seed w = (r, w1)"
    by (cases "generate_tokens E model prompt tok n T seed w")
  have "tensors w1 = tensors w" "training w1 = False"
    using generate_tokens_frame [of E model prompt tok n T seed w] l by simp_all
  then show ?thesis
    using l by (cases r) (simp_all add: generate_def Let_def)
qed

lemma read_parameters_rng [simp]: "read_parameters model (w\<lparr>rng := g\<rparr>) = read_parameters model w"
  by (simp add: read_parameters_def)

lemma call_model_agree:
  assumes "agree model w w'"
  shows "fst (call_model E model x w) = fst (call_model E model x w')
     \<and> agree model (snd (call_model E model x w)) (snd (call_model E model x w'))"
  using assms by (simp add: call_model_def agree_def split: prod.splits)

lemma generate_loop_agree:
  assumes "agree model w w'"
  shows "fst (generate_loop E model T n ts w) = fst (generate_loop E model T n ts w')"
  using assms
proof (induction n arbitrary: ts w w')
  case 0
  then show ?case by simp
next
  case (Suc n)
  obtain r w1 where c: "call_model E model (tensor_of_sequence ts) w = (r, w1)"
    by (cases "call_model E model (tensor_of_sequence ts) w")
  obtain r' w1' where c': "call_model E model (tensor_of_sequence ts) w' = (r', w1')"
    by (cases "call_model E model (tensor_of_sequence ts) w'")
  from call_model_agree [OF Suc.prems, of E "tensor_of_sequence ts"] c c'
  have r: "r' = r" and a: "agree model w1 w1'" by simp_all
  have g: "rng w1' = rng w1" using a by (simp add: agree_def)
  show ?case
  proof (cases r)
    case (Inl e)
    then show ?thesis using c c' r by simp
  next
    case (Inr token_logits)
    show ?thesis
    proof (cases "last_logits token_logits")
      case (Inl e)
      then show ?thesis using c c' r Inr by simp
    next
      case logits: (Inr logits)
      obtain token_pred g' where s: "sample E (sampling_distribution T logits) (rng w1) = (token_pred, g')"
        by (cases "sample E (sampling_distribution T logits) (rng w1)")
      have a2: "agree model (w1\<lparr>rng := g'\<rparr>) (w1'\<lparr>rng := g'\<rparr>)"
        using a by (simp add: agree_def)
      have "generate_loop E model T (Suc n) ts w
            = generate_loop E model T n (ts @ [token_pred]) (w1\<lparr>rng := g'\<rparr>)"
        using c Inr logits s by simp
      moreover have "generate_loop E model T (Suc n) ts w'
            = generate_loop E model T n (ts @ [token_pred]) (w1'\<lparr>rng := g'\<rparr>)"
        using c' r g Inr logits s by simp
      ultimately show ?thesis
        using Suc.IH [OF a2] by simp
    qed
  qed
qed

lemma generate_tokens_det:
  assumes "read_parameters model w' = read_parameters model w"
  shows "fst (generate_tokens E model prompt tok n T seed w') = fst (generate_tokens E model prompt tok n T seed w)"
proof -
  let ?w = "w\<lparr>rng := manual_seed E seed, training := False\<rparr>"
  let ?w' = "w'\<lparr>rng := manual_seed E seed, training := False\<rparr>"
  have "agree model ?w' ?w"
    using assms by (simp add: agree_def read_parameters_def)
  from generate_loop_agree [OF this, of E T "nat n" "encode tok prompt"]
  have "fst (generate_loop E model T (nat n) (encode tok prompt) ?w')
      = fst (generate_loop E model T (nat n) (encode tok prompt) ?w)" .
  then show ?thesis
    by (cases "generate_loop E model T (nat n) (encode tok prompt) ?w'";
        cases "generate_loop E model T (nat n) (encode tok prompt) ?w")
       (auto simp add: generate_tokens_def split: sum.splits)
qed

lemma generate_det:
  assumes "read_parameters model w' = read_parameters model w"
  shows "fst (generate E U model prompt tok n T seed w') = fst (generate E U model prompt tok n T seed w)"
  using generate_tokens_det [OF assms, of E prompt tok n T seed]
  by (cases "generate_tokens E model prompt tok n T seed w'";
      cases "generate_tokens E model prompt tok n T seed w")
     (auto simp add: generate_def Let_def split: sum.splits)


text \<open>
  C10. \<open>generate\<close> leaves every tensor of the store as it was, whether it returns a text
  or raises: in particular every parameter of the model has the value it had before the
  call. The one thing it changes in the model is the training flag, which is off
  afterwards.
\<close>

theorem generate_keeps_parameters:
  "tensors (snd (generate E U model prompt tok output_length temperature random_seed w)) = tensors w
   \<and> read_parameters model
        (snd (generate E U model prompt tok output_length temperature random_seed w))
       = read_parameters model w
   \<and> training (snd (generate E U model prompt tok output_length temperature random_seed w)) = False"
  using generate_frame [of E U model prompt tok output_length temperature random_seed w]
  by (simp add: read_parameters_def)

theorem generate_keeps_parameters_witness:
  "tensors (snd (generate (toy_engine 1) toy_utils toy_model ''ab'' toy_tokenizer 2 1 42
                   (toy_world 3))) = tensors (toy_world 3)
   \<and> read_parameters toy_model
        (snd (generate (toy_engine 1) toy_utils toy_model ''ab'' toy_tokenizer 2 1 42
                (toy_world 3)))
       = [(''v'', 3)]
   \<and> training (snd (generate (toy_engine 1) toy_utils toy_model ''ab'' toy_tokenizer 2 1 42
                      (toy_world 3))) = False"
  using generate_keeps_parameters [of "toy_engine 1" toy_utils toy_model "''ab''" toy_tokenizer
          2 1 42 "toy_world 3"]
  by (simp add: read_parameters_def toy_model_def toy_world_def)

text \<open>
  C9. Two invocations of \<open>generate\<close> with the same model weights, prompt, tokenizer,
  output length, temperature and seed return the same token sequence and the same text (or
  raise the same error), whatever the generator state and the training flag were before
  each call: the seed resets the generator and \<open>model.eval()\<close> the flag.
\<close>

theorem generate_deterministic:
  assumes "read_parameters model w' = read_parameters model w"
  shows "fst (generate_tokens E model prompt tok output_length temperature random_seed w')
           = fst (generate_tokens E model prompt tok output_length temperature random_seed w)
     \<and> fst (generate E U model prompt tok output_length temperature random_seed w')
           = fst (generate E U model prompt tok output_length temperature random_seed w)"
  using generate_tokens_det [OF assms] generate_det [OF assms] by blast

theorem generate_deterministic_witness:
  "read_parameters toy_model \<lparr>tensors = (\<lambda>r. if r = 0 then 3 else 9), training = True, rng = 7\<rparr>
     = read_parameters toy_model (toy_world 3)
   \<and> fst (generate (toy_engine 1) toy_utils toy_model ''ab'' toy_tokenizer 2 1 42
            \<lparr>tensors = (\<lambda>r. if r = 0 then 3 else 9), training = True, rng = 7\<rparr>)
       = fst (generate (toy_engine 1) toy_utils toy_model ''ab'' toy_tokenizer 2 1 42 (toy_world 3))"
proof -
  have h: "read_parameters toy_model
             \<lparr>tensors = (\<lambda>r. if r = 0 then 3 else 9), training = True, rng = 7\<rparr>
           = read_parameters toy_model (toy_world (3::real))"
    by (simp add: read_parameters_def toy_model_def toy_world_def)
  from generate_deterministic [OF h] h show ?thesis by blast
qed

text \<open>The text of that run.\<close>

lemma char_of_upper: "char_of (65::nat) = CHR ''A''" "char_of (66::nat) = CHR ''B''"
  by (simp_all add: char_of_def bit_0)

lemma generate_toy_text:
  "fst (generate (toy_engine 1) toy_utils toy_model ''ab'' toy_tokenizer 2 1 42 (toy_world 3))
     = Inr ''==> AB a b...''"
proof -
  have n: "nat 2 = Suc (Suc 0)" by simp
  show ?thesis
    unfolding generate_def generate_tokens_def n
    by (simp add: toy_engine_def toy_world_def toy_model_def toy_logits_def toy_utils_def
          toy_tokenizer_def call_model_def tensor_of_sequence_def read_parameters_def
          last_logits_def upper_def Let_def char_of_upper)
qed

section \<open>Properties of the training loop\<close>

lemma train_step_history:
  fixes st :: "('t, 'g, 'o) train_state"
  assumes "train_step E lrs_fn lr x y model loss_fn clip st = Inr (l, st')"
  shows "train_losses st' = train_losses st \<and> val_losses st' = val_losses st
     \<and> best_checkpoint st' = best_checkpoint st"
  using assms
  by (auto simp: train_step_def call_model_def write_parameters_def Let_def
           split: sum.splits prod.splits if_splits)

lemma val_step_history:
  fixes st :: "('t, 'g, 'o) train_state"
  assumes "val_step E x y model loss_fn st = Inr (l, st')"
  shows "train_losses st' = train_losses st \<and> val_losses st' = val_losses st
     \<and> best_checkpoint st' = best_checkpoint st"
  using assms
  by (auto simp: val_step_def call_model_def Let_def
           split: sum.splits prod.splits if_splits)

lemma train_batches_history:
  fixes st :: "('t, 'g, 'o) train_state"
  assumes "train_batches E lrs_fn lr model loss_fn clip batches acc st = Inr (l, st')"
  shows "train_losses st' = train_losses st \<and> val_losses st' = val_losses st
     \<and> best_checkpoint st' = best_checkpoint st"
  using assms
proof (induction batches arbitrary: acc st)
  case Nil
  then show ?case by simp
next
  case (Cons b batches)
  obtain x y where b: "b = (x, y)" by (cases b)
  from Cons.prems obtain l1 st1 where
    s: "train_step E lrs_fn lr x y model loss_fn clip st = Inr (l1, st1)" and
    r: "train_batches E lrs_fn lr model loss_fn clip batches (fadd acc l1) st1 = Inr (l, st')"
    by (auto simp: b split: sum.splits)
  from train_step_history [OF s] Cons.IH [OF r] show ?case by simp
qed

lemma val_batches_history:
  fixes st :: "('t, 'g, 'o) train_state"
  assumes "val_batches E model loss_fn batches acc st = Inr (l, st')"
  shows "train_losses st' = train_losses st \<and> val_losses st' = val_losses st
     \<and> best_checkpoint st' = best_checkpoint st"
  using assms
proof (induction batches arbitrary: acc st)
  case Nil
  then show ?case by simp
next
  case (Cons b batches)
  obtain x y where b: "b = (x, y)" by (cases b)
  from Cons.prems obtain l1 st1 where
    s: "val_step E x y model loss_fn st = Inr (l1, st1)" and
    r: "val_batches E model loss_fn batches (fadd acc l1) st1 = Inr (l, st')"
    by (auto simp: b split: sum.splits)
  from val_step_history [OF s] Cons.IH [OF r] show ?case by simp
qed

text \<open>No element of a sequence compares less than its Python minimum.\<close>

lemma flt_trans_neg: "\<not> flt u m \<Longrightarrow> flt v m \<Longrightarrow> \<not> flt u v"
  by (cases u; cases v; cases m) auto

lemma fold_min_not_less:
  assumes "\<forall>u \<in> S. \<not> flt u m" and "\<not> flt m m"
  shows "\<forall>u \<in> S \<union> set xs \<union> {m}. \<not> flt u (fold (\<lambda>v m. if flt v m then v else m) xs m)"
  using assms
proof (induction xs arbitrary: m S)
  case Nil
  then show ?case by auto
next
  case (Cons x xs)
  show ?case
  proof (cases "flt x m")
    case True
    have "\<forall>u \<in> S \<union> {m}. \<not> flt u x"
      using Cons.prems True flt_trans_neg by blast
    moreover have "\<not> flt x x" by (cases x) auto
    ultimately have "\<forall>u \<in> (S \<union> {m}) \<union> set xs \<union> {x}.
        \<not> flt u (fold (\<lambda>v m. if flt v m then v else m) xs x)"
      by (intro Cons.IH) auto
    then show ?thesis using True by auto
  next
    case False
    have "\<forall>u \<in> S \<union> {x}. \<not> flt u m" using Cons.prems False by auto
    then have "\<forall>u \<in> (S \<union> {x}) \<union> set xs \<union> {m}.
        \<not> flt u (fold (\<lambda>v m. if flt v m then v else m) xs m)"
      using Cons.prems(2) by (intro Cons.IH) auto
    then show ?thesis using False by auto
  qed
qed

lemma py_min_not_less:
  assumes "py_min xs = Inr m" and "v \<in> set xs"
  shows "\<not> flt v m"
proof (cases xs)
  case Nil
  with assms show ?thesis by simp
next
  case (Cons x rest)
  have "\<not> flt x x" by (cases x) auto
  then have "\<forall>u \<in> {} \<union> set rest \<union> {x}. \<not> flt u (fold (\<lambda>v m. if flt v m then v else m) rest x)"
    by (intro fold_min_not_less) auto
  then show ?thesis using assms Cons by (auto simp: py_min_def)
qed

lemma dict_set_mem: "(k, v) \<in> set (dict_set d k v)"
  by (induction d k v rule: dict_set.induct) auto

lemma dict_set_nonempty: "dict_set d k v \<noteq> []"
  by (cases d) (auto split: if_splits)

lemma epoch_body_checkpoint:
  assumes "epoch_body E lrs_fn lr model loss_fn clip train_data val_data epoch st = Inr st'"
  shows "\<exists>vl. val_losses st' = dict_set (val_losses st) epoch vl
     \<and> best_checkpoint st' =
         (if epoch = 1
          then Some \<lparr>ckpt_state_dict = model, ckpt_loss = vl, ckpt_epoch = epoch\<rparr>
          else best_checkpoint st)"
proof -
  from assms obtain loss_train st1 loss_val st2 tr vl where
    t: "train_batches E lrs_fn lr model loss_fn clip train_data (Fin 0) st = Inr (loss_train, st1)" and
    v: "val_batches E model loss_fn val_data (Fin 0) st1 = Inr (loss_val, st2)" and
    d1: "fdiv_len loss_train (length train_data) = Inr tr" and
    d2: "fdiv_len loss_val (length val_data) = Inr vl"
    by (auto simp: epoch_body_def Let_def split: sum.splits)
  have h: "val_losses st2 = val_losses st" "best_checkpoint st2 = best_checkpoint st"
    using train_batches_history [OF t] val_batches_history [OF v] by simp_all
  let ?vls = "dict_set (val_losses st) epoch vl"
  have nl: "\<not> flt vl m" if "py_min (map snd ?vls) = Inr m" for m
  proof -
    have "vl \<in> set (map snd ?vls)"
      using dict_set_mem [of epoch vl "val_losses st"] by force
    with that show ?thesis by (rule py_min_not_less)
  qed
  show ?thesis
    using assms t v d1 d2 h nl
    by (auto simp: epoch_body_def Let_def split: sum.splits if_splits bool.splits)
qed


lemma epoch_body_later:
  assumes "epoch_body E lrs_fn lr model loss_fn clip train_data val_data epoch st = Inr st'"
    and "epoch \<noteq> 1"
  shows "best_checkpoint st' = best_checkpoint st"
  using epoch_body_checkpoint [OF assms(1)] assms(2) by auto

lemma epoch_body_first:
  assumes "epoch_body E lrs_fn lr model loss_fn clip train_data val_data 1 st = Inr st'"
  shows "\<exists>vl. val_losses st' = dict_set (val_losses st) 1 vl
     \<and> best_checkpoint st' = Some \<lparr>ckpt_state_dict = model, ckpt_loss = vl, ckpt_epoch = 1\<rparr>"
  using epoch_body_checkpoint [OF assms(1)] by auto

lemma epoch_body_val_losses:
  assumes "epoch_body E lrs_fn lr model loss_fn clip train_data val_data epoch st = Inr st'"
  shows "val_losses st' \<noteq> []"
  using epoch_body_checkpoint [OF assms(1)] dict_set_nonempty by metis

text \<open>After the first epoch the checkpoint is never replaced.\<close>

lemma run_epochs_later:
  assumes "run_epochs E early_stop lrs_fn lr model loss_fn clip train_data val_data epochs st = Inr st'"
    and "1 \<notin> set epochs"
  shows "best_checkpoint st' = best_checkpoint st"
  using assms
proof (induction epochs arbitrary: st)
  case Nil
  then show ?case by simp
next
  case (Cons epoch epochs)
  from Cons.prems(1) obtain st1 where
    b: "epoch_body E lrs_fn lr model loss_fn clip train_data val_data epoch st = Inr st1" and
    r: "st' = st1 \<or> run_epochs E early_stop lrs_fn lr model loss_fn clip train_data val_data
                       epochs st1 = Inr st'"
    by (auto split: sum.splits if_splits)
  have "best_checkpoint st1 = best_checkpoint st"
    using epoch_body_later [OF b] Cons.prems(2) by simp
  moreover have "best_checkpoint st' = best_checkpoint st1"
    using r Cons.IH [of st1] Cons.prems(2) by auto
  ultimately show ?case by simp
qed

lemma run_epochs_val_losses:
  assumes "run_epochs E early_stop lrs_fn lr model loss_fn clip train_data val_data epochs st = Inr st'"
    and "val_losses st \<noteq> [] \<or> epochs \<noteq> []"
  shows "val_losses st' \<noteq> []"
  using assms
proof (induction epochs arbitrary: st)
  case Nil
  then show ?case by simp
next
  case (Cons epoch epochs)
  from Cons.prems(1) obtain st1 where
    b: "epoch_body E lrs_fn lr model loss_fn clip train_data val_data epoch st = Inr st1" and
    r: "st' = st1 \<or> run_epochs E early_stop lrs_fn lr model loss_fn clip train_data val_data
                       epochs st1 = Inr st'"
    by (auto split: sum.splits if_splits)
  have "val_losses st1 \<noteq> []" using epoch_body_val_losses [OF b] .
  then show ?case using r Cons.IH [of st1] by auto
qed

text \<open>
  A run of at least one epoch that leaves the loop holds the checkpoint of epoch 1.
\<close>

lemma run_epochs_from_one:
  assumes "run_epochs E early_stop lrs_fn lr model loss_fn clip train_data val_data
             [1..n_epochs] st = Inr st'"
    and "1 \<le> n_epochs"
  shows "\<exists>vl. best_checkpoint st' = Some \<lparr>ckpt_state_dict = model, ckpt_loss = vl, ckpt_epoch = 1\<rparr>
           \<and> val_losses st' \<noteq> []"
proof -
  have u: "[1..n_epochs] = 1 # [2..n_epochs]"
    using assms(2) by (simp add: upto_rec1)
  from assms(1) obtain st1 where
    b: "epoch_body E lrs_fn lr model loss_fn clip train_data val_data 1 st = Inr st1" and
    r: "st' = st1 \<or> run_epochs E early_stop lrs_fn lr model loss_fn clip train_data val_data
                       [2..n_epochs] st1 = Inr st'"
    unfolding u by (auto split: sum.splits if_splits)
  from epoch_body_first [OF b] obtain vl where
    c: "best_checkpoint st1 = Some \<lparr>ckpt_state_dict = model, ckpt_loss = vl, ckpt_epoch = 1\<rparr>"
    by blast
  have "1 \<notin> set [2..n_epochs]" by simp
  then have "best_checkpoint st' = best_checkpoint st1"
    using r run_epochs_later [of E early_stop lrs_fn lr model loss_fn clip train_data val_data
                                 "[2..n_epochs]" st1 st'] by auto
  moreover have "val_losses st' \<noteq> []"
    using run_epochs_val_losses [OF assms(1)] u by simp
  ultimately show ?thesis using c by simp
qed

lemma run_epochs_none:
  assumes "n_epochs < 1"
  shows "run_epochs E early_stop lrs_fn lr model loss_fn clip train_data val_data
             [1..n_epochs] st = Inr st"
  using assms by simp

lemma finalize_checkpoint:
  assumes "best_checkpoint st = Some c" and "ckpt_state_dict c = model"
  shows "\<exists>st'. finalize model st = Inr ((train_losses st, val_losses st), st')"
  using assms by (simp add: finalize_def load_state_dict_def)

lemma finalize_no_checkpoint:
  assumes "best_checkpoint st = None"
  shows "finalize model st = Inl (UnboundLocalError ''best_checkpoint'')"
  using assms by (simp add: finalize_def)

lemma train_finalize:
  assumes "train_init E model train_data n_epochs lr warmup_epochs seed w = Inr st0"
    and "run_epochs E early_stop (lrs_fn_of train_data n_epochs warmup_epochs) lr model
           (CrossEntropyLoss PAD) clip train_data val_data [1..n_epochs] st0 = Inr st"
    and "val_losses st \<noteq> []"
  shows "1 \<le> n_epochs \<and> best_checkpoint st \<noteq> None
     \<and> (\<exists>st'. train E early_stop PAD model train_data val_data n_epochs lr warmup_epochs
                 clip seed w = Inr ((train_losses st, val_losses st), st'))"
proof -
  have v0: "val_losses st0 = []"
    using assms(1) by (auto simp: train_init_def Let_def split: sum.splits)
  have n: "1 \<le> n_epochs"
  proof (rule ccontr)
    assume "\<not> 1 \<le> n_epochs"
    then have "st = st0" using assms(2) by simp
    with v0 assms(3) show False by simp
  qed
  from run_epochs_from_one [OF assms(2) n] obtain vl where
    c: "best_checkpoint st = Some \<lparr>ckpt_state_dict = model, ckpt_loss = vl, ckpt_epoch = 1\<rparr>"
    by blast
  from finalize_checkpoint [OF c] obtain st' where
    "finalize model st = Inr ((train_losses st, val_losses st), st')" by auto
  then have "train E early_stop PAD model train_data val_data n_epochs lr warmup_epochs
                 clip seed w = Inr ((train_losses st, val_losses st), st')"
    using assms(1,2) by (simp add: train_def)
  with n c show ?thesis by auto
qed


lemmas toy_defs = toy_engine_def toy_world_def toy_model_def toy_batch_def toy_logits_def

lemmas train_defs = train_def train_init_def lrs_fn_of_def LambdaLR_def scheduler_step_def
  warmup_schedule_def epoch_body_def train_step_def val_step_def call_model_def
  read_parameters_def write_parameters_def finalize_def load_state_dict_def py_min_def

lemmas loss_defs = loss_batch_def CrossEntropyLoss_def permute_0_2_1_def positions_def
  class_scores_def nll_def upt_conv_Cons

lemma upto_1_2: "[1..2::int] = [1, 2]"
  by (simp add: upto.simps)

text \<open>
  With the default \<open>warmup_epochs = 0.5\<close> and a training loader of one batch the number
  of warm-up steps is \<open>floor (0.5 * 1) = 0\<close>, and the run stops in the scheduler's
  constructor, which evaluates the schedule at step 0.
\<close>

lemma train_one_batch_default_warmup_raises:
  "train (toy_engine 1) (\<lambda>h. False) 0 toy_model [toy_batch] [toy_batch] 2 (1 / 1000) (1 / 2)
      None 42 (toy_world 1) = Inl ZeroDivisionError"
  by (simp add: toy_defs train_defs Let_def)

text \<open>
  C1. The retained checkpoint is claimed to hold the minimum validation loss seen so
  far. The comparison \<open>val_losses[epoch] < min(val_losses.values())\<close> is made after
  \<open>val_losses[epoch]\<close> has been stored, so the minimum already includes the epoch's own
  loss and the comparison is never true: the checkpoint of epoch 1 is never replaced
  (\<open>run_epochs_from_one\<close>). In a run of two epochs with validation losses \<open>ln 3\<close> and
  then \<open>ln 2\<close>, the checkpoint left by the loop is that of epoch 1 with loss \<open>ln 3\<close>,
  while the minimum of the history is \<open>ln 2\<close>.
\<close>

theorem train_keeps_first_checkpoint:
  "map_sum id (\<lambda>(r, st). (snd r, map_option ckpt_loss (best_checkpoint st),
                                  map_option ckpt_epoch (best_checkpoint st)))
     (train (toy_engine (1 / 2)) (\<lambda>h. False) 0 toy_model [toy_batch] [toy_batch] 2 (1 / 1000) 1
        None 42 (toy_world 4))
   = Inr ([(1, Fin (ln 3)), (2, Fin (ln 2))], Some (Fin (ln 3)), Some 1)
   \<and> flt (Fin (ln 2)) (Fin (ln 3))"
  by (simp add: upto_1_2 toy_defs train_defs loss_defs Let_def)

text \<open>
  The checkpoint holds the model's own tensors, which later updates overwrite. In a run
  with validation losses \<open>ln 2\<close> and then \<open>ln 3\<close> the checkpoint is that of the best
  epoch, but the parameter restored from it is the one of the last epoch (value 2, whose
  validation loss is \<open>ln 3\<close>), not the one the best epoch had (value 1).
\<close>

lemma train_restores_last_parameters:
  "map_sum id (\<lambda>(r, st). (snd r, map_option ckpt_loss (best_checkpoint st),
                                  map_option ckpt_epoch (best_checkpoint st), tensors st 0))
     (train (toy_engine 2) (\<lambda>h. False) 0 toy_model [toy_batch] [toy_batch] 2 (1 / 1000) 1
        None 42 (toy_world (1 / 2)))
   = Inr ([(1, Fin (ln 2)), (2, Fin (ln 3))], Some (Fin (ln 2)), Some 1, 2)"
  by (simp add: upto_1_2 toy_defs train_defs loss_defs Let_def)

text \<open>
  C4. \<open>train\<close> is claimed to guard against a run in which no epoch completes. It has
  no such guard: with \<open>n_epochs = -1\<close> the loop body never runs and the code after the
  loop reads the unassigned \<open>best_checkpoint\<close>; with \<open>n_epochs = 0\<close> the run does not
  get that far, the scheduler's first evaluation of the schedule dividing by
  \<open>max_steps = 0\<close>.
\<close>

theorem train_without_epochs_raises:
  "train (toy_engine 1) (\<lambda>h. False) 0 toy_model [toy_batch, toy_batch] [toy_batch] (- 1)
      (1 / 1000) (1 / 2) None 42 (toy_world 1)
     = Inl (UnboundLocalError ''best_checkpoint'')
   \<and> train (toy_engine 1) (\<lambda>h. False) 0 toy_model [toy_batch, toy_batch] [toy_batch] 0
      (1 / 1000) (1 / 2) None 42 (toy_world 1)
     = Inl ZeroDivisionError"
  by (simp add: toy_defs train_defs loss_defs Let_def)

text \<open>
  C4, amended. Whenever the epoch loop is left (at its end or by the early stop) with at
  least one epoch recorded in the validation history, a checkpoint is bound, restoring it
  succeeds, and \<open>train\<close> returns the two loss histories.
\<close>

theorem train_finalize_after_epoch:
  assumes "train_init E model train_data n_epochs lr warmup_epochs seed w = Inr st0"
    and "run_epochs E early_stop (lrs_fn_of train_data n_epochs warmup_epochs) lr model
           (CrossEntropyLoss PAD) clip train_data val_data [1..n_epochs] st0 = Inr st"
    and "val_losses st \<noteq> []"
  shows "1 \<le> n_epochs \<and> best_checkpoint st \<noteq> None
     \<and> (\<exists>st'. train E early_stop PAD model train_data val_data n_epochs lr warmup_epochs
                 clip seed w = Inr ((train_losses st, val_losses st), st'))"
  using train_finalize [OF assms] .

theorem train_finalize_after_epoch_witness:
  "\<exists>st0 st st'.
     train_init (toy_engine (1 / 2)) toy_model [toy_batch] 2 (1 / 1000) 1 42 (toy_world 4) = Inr st0
     \<and> run_epochs (toy_engine (1 / 2)) (\<lambda>h. False) (lrs_fn_of [toy_batch] 2 1) (1 / 1000) toy_model
           (CrossEntropyLoss 0) None [toy_batch] [toy_batch] [1..2] st0 = Inr st
     \<and> val_losses st \<noteq> []
     \<and> train (toy_engine (1 / 2)) (\<lambda>h. False) 0 toy_model [toy_batch] [toy_batch] 2 (1 / 1000) 1
           None 42 (toy_world 4) = Inr ((train_losses st, val_losses st), st')"
proof -
  let ?st0 = "\<lparr>tensors = (\<lambda>r. 4::real), training = False, rng = (42::nat), optimizer = (),
               lrs = \<lparr>last_epoch = 0, factor = 0\<rparr>,
               train_losses = [], val_losses = [], best_checkpoint = None\<rparr>"
  have i: "train_init (toy_engine (1 / 2)) toy_model [toy_batch] 2 (1 / 1000) 1 42 (toy_world 4)
             = Inr ?st0"
    by (simp add: toy_defs train_defs)
  have "\<exists>st. run_epochs (toy_engine (1 / 2)) (\<lambda>h. False) (lrs_fn_of [toy_batch] 2 1) (1 / 1000)
                toy_model (CrossEntropyLoss 0) None [toy_batch] [toy_batch] [1..2] ?st0 = Inr st
              \<and> val_losses st \<noteq> []"
    by (simp add: upto_1_2 toy_defs train_defs loss_defs Let_def)
  then obtain st where
    r: "run_epochs (toy_engine (1 / 2)) (\<lambda>h. False) (lrs_fn_of [toy_batch] 2 1) (1 / 1000)
          toy_model (CrossEntropyLoss 0) None [toy_batch] [toy_batch] [1..2] ?st0 = Inr st" and
    v: "val_losses st \<noteq> []"
    by blast
  from train_finalize_after_epoch [OF i r v] i r v show ?thesis by blast
qed

end
